theory Spec2Isabelle
  imports Complex_Main "HOL-Library.Word"
begin

section \<open>Data model\<close>

text \<open>
  Go's \<open>uint32\<close> and \<open>uint64\<close> are words; \<open>int\<close> (64 bits on the platforms the
  prover targets) is used by the source only for lengths and indices, which are
  natural numbers here. A conversion \<open>uint32(n)\<close> of an \<open>int\<close> truncates and is written
  \<open>word_of_nat n\<close>; \<open>int(w)\<close> of a \<open>uint32\<close> is \<open>unat w\<close>.
\<close>

type_synonym u32 = "32 word"
type_synonym u64 = "64 word"

text \<open>
  Modelled from the spec: the declaration of \<open>HintID\<close> (package \<open>hintsolver\<close>) is not
  among the sources; the spec gives it 64 bits.
\<close>

type_synonym HintID = "64 word"

text \<open>A panic aborts the program; it is kept apart from the errors a function returns.\<close>

type_synonym panic = string

subsection \<open>Terms, linear expressions, constraints\<close>

record Term =
  CID :: u32
  VID :: u32

definition CoeffIdZero :: nat where "CoeffIdZero = 0"
definition CoeffIdOne :: nat where "CoeffIdOne = 1"
definition CoeffIdTwo :: nat where "CoeffIdTwo = 2"
definition CoeffIdMinusOne :: nat where "CoeffIdMinusOne = 3"
definition CoeffIdMinusTwo :: nat where "CoeffIdMinusTwo = 4"

definition IsConstant :: "Term \<Rightarrow> bool" where
  "IsConstant t = (VID t = 0xFFFFFFFF)"

definition WireID :: "Term \<Rightarrow> nat" where
  "WireID t = unat (VID t)"

definition CoeffID :: "Term \<Rightarrow> nat" where
  "CoeffID t = unat (CID t)"

type_synonym LinearExpression = "Term list"

text \<open>
  The fields \<open>L\<close>, \<open>R\<close>, \<open>O\<close> of the source's \<open>R1C\<close> carry the struct's name as a
  prefix (\<open>O\<close> is taken by relation composition).
\<close>

record R1C =
  R1C_L :: LinearExpression
  R1C_R :: LinearExpression
  R1C_O :: LinearExpression

record Range =
  Start :: u32
  End :: u32

record HintMapping =
  HintID :: HintID
  Inputs :: "LinearExpression list"
  OutputRange :: Range

subsection \<open>Blueprints\<close>

text \<open>
  \<open>Blueprint\<close> is an interface in the source; run-time type assertions select the
  R1C and the hint capability. The two implementations of the repository are
  constructors; \<open>BlueprintOther n\<close> stands for an implementation with neither
  capability and \<open>NbInputs() = n\<close>.
\<close>

datatype Blueprint = BlueprintGenericHint | BlueprintGenericR1C | BlueprintOther int

fun NbInputs :: "Blueprint \<Rightarrow> int" where
  "NbInputs BlueprintGenericHint = -1"
| "NbInputs BlueprintGenericR1C = -1"
| "NbInputs (BlueprintOther n) = n"

fun NbConstraintsOf :: "Blueprint \<Rightarrow> nat" where
  "NbConstraintsOf BlueprintGenericHint = 0"
| "NbConstraintsOf BlueprintGenericR1C = 1"
| "NbConstraintsOf (BlueprintOther n) = 0"

subsubsection \<open>The generic R1C blueprint\<close>

text \<open>One round of \<open>r = append(r, uint32(t.CoeffID()), uint32(t.WireID()))\<close>.\<close>

definition appendTerm :: "u32 list \<Rightarrow> Term \<Rightarrow> u32 list" where
  "appendTerm r t = r @ [word_of_nat (CoeffID t), word_of_nat (WireID t)]"

definition CompressR1C :: "R1C \<Rightarrow> u32 list" where
  "CompressR1C c =
     (let nbInputs = 4 + 2 * (length (R1C_L c) + length (R1C_R c) + length (R1C_O c));
          r0 = [word_of_nat nbInputs];
          r1 = r0 @ [word_of_nat (length (R1C_L c)), word_of_nat (length (R1C_R c)),
                     word_of_nat (length (R1C_O c))];
          r2 = foldl appendTerm r1 (R1C_L c);
          r3 = foldl appendTerm r2 (R1C_R c)
      in foldl appendTerm r3 (R1C_O c))"

text \<open>
  The loop of \<open>copySlice\<close>: \<open>n\<close> rounds are left, \<open>k\<close> is the position written and
  \<open>idx\<close> the position read. A read past the end of the call data panics.
\<close>

fun copyTerms :: "u32 list \<Rightarrow> nat \<Rightarrow> nat \<Rightarrow> nat \<Rightarrow> Term list \<Rightarrow> panic + Term list" where
  "copyTerms calldata 0 k idx sl = Inr sl"
| "copyTerms calldata (Suc n) k idx sl =
     (if idx + 1 < length calldata
      then copyTerms calldata n (k + 1) (idx + 2)
             (sl[k := \<lparr>CID = calldata ! idx, VID = calldata ! (idx + 1)\<rparr>])
      else Inl ''index out of range'')"

text \<open>
  A destination slice is given by its backing array (its capacity is the length of
  the list): it is cut to \<open>expectedLen\<close> when large enough and allocated afresh
  otherwise.
\<close>

definition copySlice :: "u32 list \<Rightarrow> Term list \<Rightarrow> nat \<Rightarrow> nat \<Rightarrow> panic + Term list" where
  "copySlice calldata sl expectedLen idx =
     copyTerms calldata expectedLen 0 idx
       (if expectedLen \<le> length sl then take expectedLen sl
        else replicate expectedLen \<lparr>CID = 0, VID = 0\<rparr>)"

definition DecompressR1C :: "R1C \<Rightarrow> u32 list \<Rightarrow> panic + R1C" where
  "DecompressR1C c calldata =
     (if length calldata < 4 then Inl ''index out of range''
      else
        let lenL = unat (calldata ! 1); lenR = unat (calldata ! 2); lenO = unat (calldata ! 3)
        in case copySlice calldata (R1C_L c) lenL 4 of
             Inl p \<Rightarrow> Inl p
           | Inr l \<Rightarrow>
              (case copySlice calldata (R1C_R c) lenR (4 + 2 * lenL) of
                 Inl p \<Rightarrow> Inl p
               | Inr r \<Rightarrow>
                  (case copySlice calldata (R1C_O c) lenO (4 + 2 * (lenL + lenR)) of
                     Inl p \<Rightarrow> Inl p
                   | Inr oo \<Rightarrow> Inr \<lparr>R1C_L = l, R1C_R = r, R1C_O = oo\<rparr>)))"

text \<open>The call data of a linear expression: its terms, two words each.\<close>

definition flatten :: "Term list \<Rightarrow> u32 list" where
  "flatten l = concat (map (\<lambda>t. [CID t, VID t]) l)"

subsubsection \<open>The generic hint blueprint\<close>

text \<open>The counter \<open>nbInputs\<close> of \<open>CompressHint\<close>, one input at a time.\<close>

definition countInput :: "nat \<Rightarrow> LinearExpression \<Rightarrow> nat" where
  "countInput n l = n + 1 + length l * 2"

definition appendInput :: "u32 list \<Rightarrow> LinearExpression \<Rightarrow> u32 list" where
  "appendInput r l = foldl appendTerm (r @ [word_of_nat (length l)]) l"

text \<open>
  \<open>uint32(h.HintID)\<close> keeps the low 32 bits of the identifier (\<open>ucast\<close>). The final
  length test of the source panics with "invalid".
\<close>

definition CompressHint :: "HintMapping \<Rightarrow> panic + u32 list" where
  "CompressHint h =
     (let nbInputs = foldl countInput 3 (Inputs h) + 2;
          r0 = [word_of_nat nbInputs, ucast (HintID h), word_of_nat (length (Inputs h))];
          r1 = foldl appendInput r0 (Inputs h);
          r2 = r1 @ [Start (OutputRange h), End (OutputRange h)]
      in if length r2 \<noteq> nbInputs then Inl ''invalid'' else Inr r2)"

text \<open>
  The inner loop of \<open>DecompressHint\<close> appends \<open>n\<close> terms read from position \<open>j\<close>; the
  outer loop reads one input per round into \<open>h.Inputs[i]\<close>. Both give the position
  reached.
\<close>

fun readTerms :: "u32 list \<Rightarrow> nat \<Rightarrow> nat \<Rightarrow> Term list \<Rightarrow> panic + (Term list \<times> nat)" where
  "readTerms calldata 0 j acc = Inr (acc, j)"
| "readTerms calldata (Suc n) j acc =
     (if j + 1 < length calldata
      then readTerms calldata n (j + 2) (acc @ [\<lparr>CID = calldata ! j, VID = calldata ! (j + 1)\<rparr>])
      else Inl ''index out of range'')"

fun readInputs :: "u32 list \<Rightarrow> nat \<Rightarrow> nat \<Rightarrow> nat \<Rightarrow> LinearExpression list
    \<Rightarrow> panic + (LinearExpression list \<times> nat)" where
  "readInputs calldata 0 i j ins = Inr (ins, j)"
| "readInputs calldata (Suc m) i j ins =
     (if j < length calldata
      then (case readTerms calldata (unat (calldata ! j)) (j + 1) [] of
              Inl p \<Rightarrow> Inl p
            | Inr (l, j') \<Rightarrow> readInputs calldata m (i + 1) j' (ins[i := l]))
      else Inl ''index out of range'')"

definition DecompressHint :: "HintMapping \<Rightarrow> u32 list \<Rightarrow> panic + HintMapping" where
  "DecompressHint h calldata =
     (if length calldata < 3 then Inl ''index out of range''
      else
        let lenInputs = unat (calldata ! 2);
            ins0 = (if lenInputs \<le> length (Inputs h) then take lenInputs (Inputs h)
                    else replicate lenInputs [])
        in case readInputs calldata lenInputs 0 3 ins0 of
             Inl p \<Rightarrow> Inl p
           | Inr (ins, j) \<Rightarrow>
               if j + 1 < length calldata
               then Inr \<lparr>HintID = ucast (calldata ! 1), Inputs = ins,
                         OutputRange = \<lparr>Start = calldata ! j, End = calldata ! (j + 1)\<rparr>\<rparr>
               else Inl ''index out of range'')"

text \<open>The call data of a list of inputs: each input's length, then its terms.\<close>

definition flattenInputs :: "LinearExpression list \<Rightarrow> u32 list" where
  "flattenInputs ins = concat (map (\<lambda>l. word_of_nat (length l) # flatten l) ins)"

section \<open>The constraint system and the solver\<close>

text \<open>
  \<open>fr.Element\<close> (package \<open>gnark-crypto\<close>) is not part of the repository. It is a type
  parameter \<open>'a\<close> of class \<open>field\<close>: \<open>Add\<close>, \<open>Sub\<close>, \<open>Mul\<close>, \<open>Neg\<close> and \<open>Div\<close> are
  \<open>+\<close>, \<open>-\<close>, \<open>*\<close>, unary \<open>-\<close> and \<open>/\<close>, \<open>Double\<close> adds the element to itself,
  \<open>IsZero\<close> and \<open>Equal\<close> are equality, and \<open>SetBigInt\<close> is \<open>of_int\<close>. As in
  \<open>gnark-crypto\<close>, the inverse of 0 is 0, so \<open>x / 0 = 0\<close>. Every theorem below holds
  in every field, the scalar field of BN254 among them.
\<close>

record Instruction =
  BlueprintID :: u32
  ConstraintOffset :: u32
  StartCallData :: u64

text \<open>
  A hint function receives the modulus, the inputs and the outputs (allocated by
  the caller, all 0) and returns an error or nil; it writes its results into the
  outputs. Here it returns the outputs as it left them, and its error by its message.
  The inputs are handed over as field elements: the conversion \<open>Element.BigInt\<close> of
  the source (to the representative below the modulus) is left to the hint function.
\<close>

type_synonym 'a HintFn = "int \<Rightarrow> 'a list \<Rightarrow> int list \<Rightarrow> int list \<times> string option"

text \<open>
  The structs \<open>System\<close> and \<open>CoeffTable\<close> embedded in \<open>system\<close>, with the fields the
  solver reads. \<open>MHintsDependencies\<close> is a Go map; it is a list of its entries in the
  order in which the \<open>range\<close> loop of \<open>newSolver\<close> visits them (Go leaves that order
  open). \<open>Sys_q\<close> is the field \<open>q\<close>.

  \<open>CallData\<close> is a Go slice: \<open>CallData\<close> holds its elements, up to its length, and
  \<open>CallDataSpare\<close> the words of its backing array from the length to the capacity
  (\<open>NewSystem\<close> makes the slice with length 0 and a capacity of its own, and \<open>append\<close>
  may leave room). So \<open>len(cs.CallData)\<close> is \<open>length (CallData cs)\<close> and
  \<open>cap(cs.CallData)\<close> is \<open>length (CallData cs @ CallDataSpare cs)\<close>.
\<close>

record 'a system =
  Type :: int
  Instructions :: "Instruction list"
  Blueprints :: "Blueprint list"
  CallData :: "u32 list"
  CallDataSpare :: "u32 list"
  NbConstraints :: nat
  NbInternalVariables :: nat
  Public :: "string list"
  Secret :: "string list"
  MHintsDependencies :: "(HintID \<times> string) list"
  Levels :: "int list list"
  Coefficients :: "'a list"
  Sys_q :: int

definition ConstrainSystemTypeR1CS :: int where
  "ConstrainSystemTypeR1CS = 1"

text \<open>
  The errors the solver returns, by the statement that builds them, and the struct
  \<open>UnsatisfiedConstraintError\<close> that the source declares.
\<close>

datatype 'a error =
    ErrConfig string
  | ErrInvalidWitnessSize nat int
  | ErrMissingHints "string list"
  | ErrMissingHintFunction
  | ErrHint string
  | ErrMulCheck 'a 'a 'a
  | ErrNotAllWires
  | UnsatisfiedConstraintError "'a error" int "string option"

text \<open>
  The solver state. \<open>Svalues\<close>, \<open>Sa\<close>, \<open>Sb\<close>, \<open>Sc\<close> and \<open>Sq\<close> are the fields \<open>values\<close>,
  \<open>a\<close>, \<open>b\<close>, \<open>c\<close> and \<open>q\<close>. \<open>nbSolved\<close> counts wires, each at most once, and stays far
  below \<open>2^64\<close>: it is a natural number.
\<close>

record 'a solver =
  Ssystem :: "'a system"
  Svalues :: "'a list"
  solved :: "bool list"
  nbSolved :: nat
  mHintsFunctions :: "HintID \<Rightarrow> 'a HintFn option"
  Sa :: "'a list"
  Sb :: "'a list"
  Sc :: "'a list"
  Sq :: int

text \<open>\<open>set\<close> of the source.\<close>

definition set_wire :: "nat \<Rightarrow> 'a \<Rightarrow> 'a solver \<Rightarrow> panic + 'a solver" where
  "set_wire wid v s =
     (if length (solved s) \<le> wid then Inl ''index out of range''
      else if solved s ! wid then Inl ''solving the same wire twice should never happen.''
      else if length (Svalues s) \<le> wid then Inl ''index out of range''
      else Inr (s\<lparr>Svalues := (Svalues s)[wid := v], solved := (solved s)[wid := True],
                  nbSolved := nbSolved s + 1\<rparr>))"

definition accumulateInto :: "('a::field) solver \<Rightarrow> Term \<Rightarrow> 'a \<Rightarrow> panic + 'a" where
  "accumulateInto s t r =
     (let cID = CoeffID t; vID = WireID t in
      if cID = CoeffIdZero then Inr r
      else if cID = CoeffIdOne then
        (if length (Svalues s) \<le> vID then Inl ''index out of range''
         else Inr (r + Svalues s ! vID))
      else if cID = CoeffIdTwo then
        (if length (Svalues s) \<le> vID then Inl ''index out of range''
         else Inr (r + (Svalues s ! vID + Svalues s ! vID)))
      else if cID = CoeffIdMinusOne then
        (if length (Svalues s) \<le> vID then Inl ''index out of range''
         else Inr (r - Svalues s ! vID))
      else
        (if length (Coefficients (Ssystem s)) \<le> cID \<or> length (Svalues s) \<le> vID
         then Inl ''index out of range''
         else Inr (r + Coefficients (Ssystem s) ! cID * Svalues s ! vID)))"

definition divByCoeff :: "('a::field) solver \<Rightarrow> 'a \<Rightarrow> u32 \<Rightarrow> panic + 'a" where
  "divByCoeff s res cID =
     (if unat cID = CoeffIdOne then Inr res
      else if unat cID = CoeffIdMinusOne then Inr (- res)
      else if unat cID = CoeffIdZero then Inl ''division by 0''
      else if length (Coefficients (Ssystem s)) \<le> unat cID then Inl ''index out of range''
      else Inr (res / Coefficients (Ssystem s) ! unat cID))"

subsection \<open>Solving one constraint\<close>

text \<open>
  The closure \<open>processLExp\<close> of \<open>solveR1C\<close>: a sweep over one linear expression. Its
  state is the accumulator \<open>val\<close> and the captured variables \<open>loc\<close> and
  \<open>termToCompute\<close>.
\<close>

fun processLExp :: "('a::field) solver \<Rightarrow> LinearExpression \<Rightarrow> nat \<Rightarrow> 'a \<times> nat \<times> Term
    \<Rightarrow> panic + ('a \<times> nat \<times> Term)" where
  "processLExp s [] locValue st = Inr st"
| "processLExp s (t # l) locValue (val, loc, termToCompute) =
     (if length (solved s) \<le> WireID t then Inl ''index out of range''
      else if solved s ! WireID t then
        (case accumulateInto s t val of
           Inl p \<Rightarrow> Inl p
         | Inr val' \<Rightarrow> processLExp s l locValue (val', loc, termToCompute))
      else if loc \<noteq> 0 then Inl ''found more than one wire to instantiate''
      else processLExp s l locValue (val, locValue, t))"

text \<open>
  \<open>a\<close>, \<open>b\<close> and \<open>c\<close> point into the solver's vectors: what the sweeps and the case
  analysis leave in them is what the vectors hold when \<open>solveR1C\<close> returns.
\<close>

definition storeABC :: "'a solver \<Rightarrow> nat \<Rightarrow> 'a \<Rightarrow> 'a \<Rightarrow> 'a \<Rightarrow> 'a solver" where
  "storeABC s cid a b c = s\<lparr>Sa := (Sa s)[cid := a], Sb := (Sb s)[cid := b], Sc := (Sc s)[cid := c]\<rparr>"

text \<open>The last two statements of \<open>solveR1C\<close>.\<close>

definition instantiate :: "('a::field) solver \<Rightarrow> 'a \<Rightarrow> Term
    \<Rightarrow> panic + ('a solver \<times> 'a error option)" where
  "instantiate s wire termToCompute =
     (case divByCoeff s wire (CID termToCompute) of
        Inl p \<Rightarrow> Inl p
      | Inr w \<Rightarrow>
         (case set_wire (WireID termToCompute) w s of
            Inl p \<Rightarrow> Inl p
          | Inr s' \<Rightarrow> Inr (s', None)))"

definition solveR1C :: "u32 \<Rightarrow> R1C \<Rightarrow> ('a::field) solver \<Rightarrow> panic + ('a solver \<times> 'a error option)" where
  "solveR1C cID r s =
     (let cid = unat cID in
      if length (Sa s) \<le> cid \<or> length (Sb s) \<le> cid \<or> length (Sc s) \<le> cid
      then Inl ''index out of range''
      else
       (case processLExp s (R1C_L r) 1 (Sa s ! cid, 0, \<lparr>CID = 0, VID = 0\<rparr>) of
          Inl p \<Rightarrow> Inl p
        | Inr (a, loc1, t1) \<Rightarrow>
       (case processLExp s (R1C_R r) 2 (Sb s ! cid, loc1, t1) of
          Inl p \<Rightarrow> Inl p
        | Inr (b, loc2, t2) \<Rightarrow>
       (case processLExp s (R1C_O r) 3 (Sc s ! cid, loc2, t2) of
          Inl p \<Rightarrow> Inl p
        | Inr (c, loc, termToCompute) \<Rightarrow>
           if loc = 0 then
             (if a * b = c then Inr (storeABC s cid a b c, None)
              else Inr (storeABC s cid a b c, Some (ErrMulCheck a b c)))
           else if loc = 1 then
             (if b \<noteq> 0 then
                (let wire = c / b - a
                 in instantiate (storeABC s cid (a + wire) b c) wire termToCompute)
              else if a * b \<noteq> c then Inr (storeABC s cid a b c, Some (ErrMulCheck a b c))
              else instantiate (storeABC s cid a b c) 0 termToCompute)
           else if loc = 2 then
             (if a \<noteq> 0 then
                (let wire = c / a - b
                 in instantiate (storeABC s cid a (b + wire) c) wire termToCompute)
              else if a * b \<noteq> c then Inr (storeABC s cid a b c, Some (ErrMulCheck a b c))
              else instantiate (storeABC s cid a b c) 0 termToCompute)
           else if loc = 3 then
             (let wire = a * b - c
              in instantiate (storeABC s cid a b (c + wire)) wire termToCompute)
           else instantiate (storeABC s cid a b c) 0 termToCompute))))"

subsection \<open>Solving with a hint\<close>

text \<open>The value of one input: the inner loop over the terms of \<open>h.Inputs[i]\<close>.\<close>

fun hintInput :: "('a::field) solver \<Rightarrow> LinearExpression \<Rightarrow> 'a \<Rightarrow> panic + 'a" where
  "hintInput s [] v = Inr v"
| "hintInput s (t # l) v =
     (if IsConstant t then
        (if length (Coefficients (Ssystem s)) \<le> CoeffID t then Inl ''index out of range''
         else hintInput s l (v + Coefficients (Ssystem s) ! CoeffID t))
      else
        (case accumulateInto s t v of
           Inl p \<Rightarrow> Inl p
         | Inr v' \<Rightarrow> hintInput s l v'))"

fun hintInputs :: "('a::field) solver \<Rightarrow> LinearExpression list \<Rightarrow> panic + 'a list" where
  "hintInputs s [] = Inr []"
| "hintInputs s (l # ls) =
     (case hintInput s l 0 of
        Inl p \<Rightarrow> Inl p
      | Inr v \<Rightarrow>
         (case hintInputs s ls of
            Inl p \<Rightarrow> Inl p
          | Inr vs \<Rightarrow> Inr (v # vs)))"

text \<open>
  The caller's slice of outputs keeps its length whatever the hint function does:
  the first \<open>n\<close> values the function left, 0 where it left none.
\<close>

definition fitOutputs :: "nat \<Rightarrow> int list \<Rightarrow> int list" where
  "fitOutputs n outs = take n outs @ replicate (n - length outs) 0"

text \<open>The loop \<open>for i := range outputs\<close>: output \<open>i\<close> goes to wire \<open>Start + i\<close>.\<close>

fun setOutputs :: "nat \<Rightarrow> int list \<Rightarrow> ('a::field) solver \<Rightarrow> panic + 'a solver" where
  "setOutputs k [] s = Inr s"
| "setOutputs k (x # xs) s =
     (case set_wire k (of_int x) s of
        Inl p \<Rightarrow> Inl p
      | Inr s' \<Rightarrow> setOutputs (k + 1) xs s')"

definition solveWithHint :: "HintMapping \<Rightarrow> ('a::field) solver
    \<Rightarrow> panic + ('a solver \<times> 'a error option)" where
  "solveWithHint h s =
     (case mHintsFunctions s (HintID h) of
        None \<Rightarrow> Inr (s, Some ErrMissingHintFunction)
      | Some f \<Rightarrow>
         (let nbOutputs = unat (End (OutputRange h) - Start (OutputRange h));
              outputs = replicate nbOutputs 0
          in case hintInputs s (Inputs h) of
               Inl p \<Rightarrow> Inl p
             | Inr inputs \<Rightarrow>
                (case f (Sq s) inputs outputs of
                   (outs, err) \<Rightarrow>
                     (case setOutputs (unat (Start (OutputRange h))) (fitOutputs nbOutputs outs) s of
                        Inl p \<Rightarrow> Inl p
                      | Inr s' \<Rightarrow> Inr (s', map_option ErrHint err)))))"

subsection \<open>Instructions\<close>

text \<open>
  \<open>GetCallData\<close>. The index expression \<open>cs.CallData[instruction.StartCallData]\<close>
  panics from the length of the slice on; the slice expression
  \<open>cs.CallData[low : high]\<close> panics only when \<open>high\<close> is past the capacity, and
  below that it returns the words of the backing array, those past the length
  among them. (A sum \<open>low + nbInputs\<close> that wraps around in \<open>uint64\<close> is below \<open>low\<close>,
  and \<open>low\<close> is past the capacity then: the expression panics as well.)
\<close>

definition GetCallData :: "'a system \<Rightarrow> Instruction \<Rightarrow> panic + u32 list" where
  "GetCallData cs inst =
     (let bid = unat (BlueprintID inst); start = unat (StartCallData inst) in
      if length (Blueprints cs) \<le> bid then Inl ''index out of range''
      else
        (let nb = NbInputs (Blueprints cs ! bid) in
         if nb < 0 \<and> length (CallData cs) \<le> start then Inl ''index out of range''
         else
           (let nbInputs = (if nb < 0 then unat (CallData cs ! start) else nat nb) in
            if length (CallData cs @ CallDataSpare cs) < start + nbInputs
            then Inl ''slice bounds out of range''
            else Inr (take nbInputs (drop start (CallData cs @ CallDataSpare cs))))))"

text \<open>The scratch space of a worker.\<close>

record scratch =
  tR1C :: R1C
  tHint :: HintMapping

definition emptyScratch :: scratch where
  "emptyScratch =
     \<lparr>tR1C = \<lparr>R1C_L = [], R1C_R = [], R1C_O = []\<rparr>,
      tHint = \<lparr>HintID = 0, Inputs = [], OutputRange = \<lparr>Start = 0, End = 0\<rparr>\<rparr>\<rparr>"

definition processInstruction :: "Instruction \<Rightarrow> scratch \<Rightarrow> ('a::field) solver
    \<Rightarrow> panic + (scratch \<times> 'a solver \<times> 'a error option)" where
  "processInstruction inst scr s =
     (let bid = unat (BlueprintID inst) in
      if length (Blueprints (Ssystem s)) \<le> bid then Inl ''index out of range''
      else
       (case GetCallData (Ssystem s) inst of
          Inl p \<Rightarrow> Inl p
        | Inr calldata \<Rightarrow>
           (case Blueprints (Ssystem s) ! bid of
              BlueprintGenericR1C \<Rightarrow>
                (case DecompressR1C (tR1C scr) calldata of
                   Inl p \<Rightarrow> Inl p
                 | Inr r \<Rightarrow>
                    (case solveR1C (ConstraintOffset inst) r s of
                       Inl p \<Rightarrow> Inl p
                     | Inr (s', e) \<Rightarrow> Inr (scr\<lparr>tR1C := r\<rparr>, s', e)))
            | BlueprintGenericHint \<Rightarrow>
                (case DecompressHint (tHint scr) calldata of
                   Inl p \<Rightarrow> Inl p
                 | Inr h \<Rightarrow>
                    (case solveWithHint h s of
                       Inl p \<Rightarrow> Inl p
                     | Inr (s', e) \<Rightarrow> Inr (scr\<lparr>tHint := h\<rparr>, s', e)))
            | BlueprintOther n \<Rightarrow> Inr (scr, s, None))))"

subsection \<open>Levels\<close>

text \<open>The loop over the instructions of a task; it stops at the first error.\<close>

fun processAll :: "int list \<Rightarrow> scratch \<Rightarrow> ('a::field) solver
    \<Rightarrow> panic + (scratch \<times> 'a solver \<times> 'a error option)" where
  "processAll [] scr s = Inr (scr, s, None)"
| "processAll (i # is) scr s =
     (if i < 0 \<or> length (Instructions (Ssystem s)) \<le> nat i then Inl ''index out of range''
      else
       (case processInstruction (Instructions (Ssystem s) ! nat i) scr s of
          Inl p \<Rightarrow> Inl p
        | Inr (scr', s', Some e) \<Rightarrow> Inr (scr', s', Some e)
        | Inr (scr', s', None) \<Rightarrow> processAll is scr' s'))"

text \<open>
  \<open>maxCPU := float64(len(level)) / minWorkPerCPU\<close>. The quotient is exact here; the
  floating-point quotient of the source is its rounding, which is at most 1 for
  the same lengths and has the same ceiling for every length a level can have.
\<close>

definition minWorkPerCPU :: real where
  "minWorkPerCPU = 50"

definition maxCPU :: "int list \<Rightarrow> real" where
  "maxCPU level = real (length level) / minWorkPerCPU"

text \<open>
  The loop that cuts a level into tasks: \<open>n\<close> rounds are left, \<open>i\<close> is the round, and
  each task is the range from \<open>_start\<close> to \<open>_end\<close> of the level.
\<close>

fun taskRanges :: "nat \<Rightarrow> nat \<Rightarrow> nat \<Rightarrow> nat \<Rightarrow> nat \<Rightarrow> (nat \<times> nat) list" where
  "taskRanges 0 i nbIterationsPerCpus extraTasks extraTasksOffset = []"
| "taskRanges (Suc n) i nbIterationsPerCpus extraTasks extraTasksOffset =
     (let start = i * nbIterationsPerCpus + extraTasksOffset;
          end0 = start + nbIterationsPerCpus
      in if 0 < extraTasks
         then (start, end0 + 1)
                # taskRanges n (i + 1) nbIterationsPerCpus (extraTasks - 1) (extraTasksOffset + 1)
         else (start, end0)
                # taskRanges n (i + 1) nbIterationsPerCpus extraTasks extraTasksOffset)"

text \<open>
  How \<open>run\<close> executes a level: on the calling thread, or as tasks sent to the pool of
  workers. \<open>numCPU\<close> is \<open>runtime.NumCPU()\<close>.
\<close>

datatype dispatch = Sequential | Parallel "(nat \<times> nat) list"

definition levelDispatch :: "nat \<Rightarrow> int list \<Rightarrow> panic + dispatch" where
  "levelDispatch numCPU level =
     (if maxCPU level \<le> 1 then Inr Sequential
      else
        (let maxTasks = nat \<lceil>maxCPU level\<rceil>;
             nbTasks = (if maxTasks < numCPU then maxTasks else numCPU)
         in if nbTasks = 0 then Inl ''integer divide by zero''
            else
              (let nbIterationsPerCpus = length level div nbTasks;
                   nbTasks' = (if nbIterationsPerCpus < 1 then length level else nbTasks);
                   nbIterationsPerCpus' = (if nbIterationsPerCpus < 1 then 1 else nbIterationsPerCpus);
                   extraTasks = length level - nbTasks' * nbIterationsPerCpus'
               in Inr (Parallel (taskRanges nbTasks' 0 nbIterationsPerCpus' extraTasks 0)))))"

text \<open>The slice expressions \<open>level[_start:_end]\<close>.\<close>

fun levelTasks :: "int list \<Rightarrow> (nat \<times> nat) list \<Rightarrow> panic + int list list" where
  "levelTasks level [] = Inr []"
| "levelTasks level ((start, end0) # ranges) =
     (if length level < end0 \<or> end0 < start then Inl ''slice bounds out of range''
      else
       (case levelTasks level ranges of
          Inl p \<Rightarrow> Inl p
        | Inr tasks \<Rightarrow> Inr (take (end0 - start) (drop start level) # tasks)))"

text \<open>
  The pool of workers on the tasks of a level. A worker takes a task from \<open>chTasks\<close>
  and calls \<open>processInstruction\<close> on its instructions in order; at the first error
  it sends the error on \<open>chError\<close> and leaves the task. The workers run at the same
  time, and the order in which their calls come is left to the Go scheduler; a
  call of \<open>processInstruction\<close> is one step of the pool. The state of the pool is: for each task the scratch space of its worker and the
  instructions it has still to process; the solver; and the errors on \<open>chError\<close>, in
  the order in which they were sent. A level has at most as many tasks as there
  are workers, so every task has a worker, and \<open>chError\<close> has room for one error of
  each task.
\<close>

type_synonym 'a pool = "(scratch \<times> int list) list \<times> 'a solver \<times> 'a error list"

text \<open>
  One call of \<open>processInstruction\<close> by the worker of task \<open>k\<close>, on the next instruction
  of that task. A task that is finished, or that its worker has left, does nothing.
\<close>

definition workerStep :: "nat \<Rightarrow> ('a::field) pool \<Rightarrow> panic + 'a pool" where
  "workerStep k pool =
     (case pool of (tasks, s, chError) \<Rightarrow>
        if length tasks \<le> k then Inr pool
        else
         (case tasks ! k of
            (scr, []) \<Rightarrow> Inr pool
          | (scr, i # is) \<Rightarrow>
              if i < 0 \<or> length (Instructions (Ssystem s)) \<le> nat i then Inl ''index out of range''
              else
               (case processInstruction (Instructions (Ssystem s) ! nat i) scr s of
                  Inl p \<Rightarrow> Inl p
                | Inr (scr', s', None) \<Rightarrow> Inr (tasks[k := (scr', is)], s', chError)
                | Inr (scr', s', Some e) \<Rightarrow> Inr (tasks[k := (scr', [])], s', chError @ [e]))))"

text \<open>
  A schedule is the list of the tasks whose workers make the next calls, one entry
  for each call. Every order in which the calls of the workers can come is the
  schedule of that order.
\<close>

fun workerSteps :: "nat list \<Rightarrow> ('a::field) pool \<Rightarrow> panic + 'a pool" where
  "workerSteps [] pool = Inr pool"
| "workerSteps (k # ks) pool =
     (case workerStep k pool of
        Inl p \<Rightarrow> Inl p
      | Inr pool' \<Rightarrow> workerSteps ks pool')"

text \<open>
  \<open>wg.Wait()\<close>: the level is done when every task is. What a schedule leaves of the
  tasks is run task by task, each one to its end or to its first error.
\<close>

fun drainTasks :: "(scratch \<times> int list) list \<Rightarrow> ('a::field) solver \<Rightarrow> 'a error list
    \<Rightarrow> panic + ('a solver \<times> 'a error list)" where
  "drainTasks [] s chError = Inr (s, chError)"
| "drainTasks ((scr, is) # ts) s chError =
     (case processAll is scr s of
        Inl p \<Rightarrow> Inl p
      | Inr (scr', s', None) \<Rightarrow> drainTasks ts s' chError
      | Inr (scr', s', Some e) \<Rightarrow> drainTasks ts s' (chError @ [e]))"

text \<open>
  The tasks of a level under a schedule, from an empty \<open>chError\<close>. Each task starts
  with the scratch space of a worker that has not decompressed anything yet: what
  \<open>processInstruction\<close> does to the solver, and the error it returns, do not depend
  on what the scratch space held (lemma \<open>processInstruction_scratch\<close>). The result is
  the solver and the content of \<open>chError\<close> when \<open>wg.Wait()\<close> returns.
\<close>

definition runTasks :: "nat list \<Rightarrow> int list list \<Rightarrow> ('a::field) solver
    \<Rightarrow> panic + ('a solver \<times> 'a error list)" where
  "runTasks sched tasks s =
     (case workerSteps sched (map (Pair emptyScratch) tasks, s, []) of
        Inl p \<Rightarrow> Inl p
      | Inr (tasks', s', chError) \<Rightarrow> drainTasks tasks' s' chError)"

text \<open>
  The loop of \<open>run\<close> over the levels. \<open>sched n\<close> is the schedule of the workers on
  level number \<open>n\<close> (it is not read when the level is executed sequentially), \<open>scr\<close>
  is the variable \<open>scratch\<close> of \<open>run\<close>. After a parallel level, \<open>run\<close> returns the
  first error of \<open>chError\<close> if there is one. The scratch space is returned with the
  solver.
\<close>

fun runLevels :: "(nat \<Rightarrow> nat list) \<Rightarrow> nat \<Rightarrow> nat \<Rightarrow> int list list \<Rightarrow> scratch \<Rightarrow> ('a::field) solver
    \<Rightarrow> panic + (scratch \<times> 'a solver \<times> 'a error option)" where
  "runLevels sched numCPU n [] scr s = Inr (scr, s, None)"
| "runLevels sched numCPU n (level # levels) scr s =
     (case levelDispatch numCPU level of
        Inl p \<Rightarrow> Inl p
      | Inr Sequential \<Rightarrow>
         (case processAll level scr s of
            Inl p \<Rightarrow> Inl p
          | Inr (scr', s', Some e) \<Rightarrow> Inr (scr', s', Some e)
          | Inr (scr', s', None) \<Rightarrow> runLevels sched numCPU (n + 1) levels scr' s')
      | Inr (Parallel ranges) \<Rightarrow>
         (case levelTasks level ranges of
            Inl p \<Rightarrow> Inl p
          | Inr tasks \<Rightarrow>
             (case runTasks (sched n) tasks s of
                Inl p \<Rightarrow> Inl p
              | Inr (s', e # es) \<Rightarrow> Inr (scr, s', Some e)
              | Inr (s', []) \<Rightarrow> runLevels sched numCPU (n + 1) levels scr s')))"

text \<open>
  \<open>run\<close>. The schedules of the workers are an argument: \<open>sched\<close> gives one for each
  level, and every theorem on \<open>run\<close> and \<open>Solve\<close> holds for all of them.
\<close>

definition run :: "(nat \<Rightarrow> nat list) \<Rightarrow> nat \<Rightarrow> ('a::field) solver
    \<Rightarrow> panic + ('a solver \<times> 'a error option)" where
  "run sched numCPU s =
     (case runLevels sched numCPU 0 (Levels (Ssystem s)) emptyScratch s of
        Inl p \<Rightarrow> Inl p
      | Inr (scr', s', Some e) \<Rightarrow> Inr (s', Some e)
      | Inr (scr', s', None) \<Rightarrow>
          if nbSolved s' \<noteq> length (Svalues s') then Inr (s', Some ErrNotAllWires)
          else Inr (s', None))"

subsection \<open>The hint registry and the solver's construction\<close>

text \<open>
  The struct \<open>Hint\<close>, from its use in \<open>RegisterHint\<close>. The registry is the global map
  \<open>registry\<close>, passed and returned.
\<close>

record 'a Hint =
  ID :: HintID
  Fn :: "'a HintFn"

fun RegisterHint :: "'a Hint list \<Rightarrow> (HintID \<Rightarrow> 'a HintFn option) \<Rightarrow> (HintID \<Rightarrow> 'a HintFn option)" where
  "RegisterHint [] registry = registry"
| "RegisterHint (hint # hints) registry =
     (case registry (ID hint) of
        Some f \<Rightarrow> registry
      | None \<Rightarrow> RegisterHint hints (registry(ID hint \<mapsto> Fn hint)))"

definition GetRegisteredHints :: "(HintID \<Rightarrow> 'a HintFn option) \<Rightarrow> (HintID \<Rightarrow> 'a HintFn option)" where
  "GetRegisteredHints registry = registry"

text \<open>
  Modelled from the spec: \<open>NewConfig\<close> and the type \<open>Option\<close> (package \<open>hintsolver\<close>)
  are not among the sources. By the spec the solver options hold a map of hint
  functions, and the solver merges the global registry with the caller-supplied
  overrides. The spec names no failure of \<open>NewConfig\<close>.
\<close>

record 'a Config =
  HintFunctions :: "HintID \<Rightarrow> 'a HintFn option"

definition NewConfig :: "(HintID \<Rightarrow> 'a HintFn option) \<Rightarrow> (HintID \<Rightarrow> 'a HintFn option) list
    \<Rightarrow> string + 'a Config" where
  "NewConfig registry opts = Inr \<lparr>HintFunctions = foldl (++) (GetRegisteredHints registry) opts\<rparr>"

text \<open>The loop of \<open>newSolver\<close> that collects the names of the hints without a function.\<close>

fun missingHints :: "(HintID \<times> string) list \<Rightarrow> (HintID \<Rightarrow> 'a HintFn option) \<Rightarrow> string list
    \<Rightarrow> string list" where
  "missingHints [] hintFunctions missing = missing"
| "missingHints ((hintUUID, hintID) # deps) hintFunctions missing =
     (case hintFunctions hintUUID of
        None \<Rightarrow> missingHints deps hintFunctions (missing @ [hintID])
      | Some f \<Rightarrow> missingHints deps hintFunctions missing)"

text \<open>The loop \<open>for i := range witness\<close> that marks the wires of the witness.\<close>

fun markWitness :: "nat \<Rightarrow> nat \<Rightarrow> bool list \<Rightarrow> panic + bool list" where
  "markWitness 0 k flags = Inr flags"
| "markWitness (Suc n) k flags =
     (if length flags \<le> k then Inl ''index out of range''
      else markWitness n (k + 1) (flags[k := True]))"

text \<open>\<open>copy(dst[off:], src)\<close>: as many elements as both sides have.\<close>

definition copyAt :: "nat \<Rightarrow> 'a list \<Rightarrow> 'a list \<Rightarrow> 'a list" where
  "copyAt off dst src =
     (let n = min (length dst - off) (length src)
      in take off dst @ take n src @ drop (off + n) dst)"

definition newSolver :: "(HintID \<Rightarrow> 'a HintFn option) \<Rightarrow> ('a::field) system \<Rightarrow> 'a list
    \<Rightarrow> (HintID \<Rightarrow> 'a HintFn option) list \<Rightarrow> panic + ('a error + 'a solver)" where
  "newSolver registry cs witness opts =
     (case NewConfig registry opts of
        Inl e \<Rightarrow> Inr (Inl (ErrConfig e))
      | Inr opt \<Rightarrow>
         (let witnessOffset = (if Type cs = ConstrainSystemTypeR1CS then 1 else 0 :: nat);
              nbWires = length (Public cs) + length (Secret cs) + NbInternalVariables cs;
              expectedWitnessSize = int (length (Public cs)) - int witnessOffset + int (length (Secret cs))
          in if int (length witness) \<noteq> expectedWitnessSize
             then Inr (Inl (ErrInvalidWitnessSize (length witness) expectedWitnessSize))
             else
              (let hintFunctions = HintFunctions opt;
                   missing = missingHints (MHintsDependencies cs) hintFunctions []
               in if 0 < length missing then Inr (Inl (ErrMissingHints missing))
                  else if witnessOffset = 1 \<and> nbWires = 0 then Inl ''index out of range''
                  else
                   (let values0 = replicate nbWires 0;
                        solved0 = replicate nbWires False;
                        values1 = (if witnessOffset = 1 then values0[0 := 1] else values0);
                        solved1 = (if witnessOffset = 1 then solved0[0 := True] else solved0);
                        values2 = copyAt witnessOffset values1 witness
                    in case markWitness (length witness) witnessOffset solved1 of
                         Inl p \<Rightarrow> Inl p
                       | Inr solved2 \<Rightarrow>
                           (let n = (if Type cs = ConstrainSystemTypeR1CS then NbConstraints cs else 0)
                            in Inr (Inr \<lparr>Ssystem = cs, Svalues = values2, solved = solved2,
                                         nbSolved = length witness + witnessOffset,
                                         mHintsFunctions = hintFunctions,
                                         Sa = replicate n 0, Sb = replicate n 0, Sc = replicate n 0,
                                         Sq = Sys_q cs\<rparr>))))))"

text \<open>The result of \<open>Solve\<close>; its fields are \<open>W\<close>, \<open>A\<close>, \<open>B\<close> and \<open>C\<close> in the source.\<close>

record 'a R1CSSolution =
  Sol_W :: "'a list"
  Sol_A :: "'a list"
  Sol_B :: "'a list"
  Sol_C :: "'a list"

definition Solve :: "(nat \<Rightarrow> nat list) \<Rightarrow> nat \<Rightarrow> (HintID \<Rightarrow> 'a HintFn option)
    \<Rightarrow> ('a::field) system \<Rightarrow> 'a list \<Rightarrow> (HintID \<Rightarrow> 'a HintFn option) list
    \<Rightarrow> panic + ('a error + 'a R1CSSolution)" where
  "Solve sched numCPU registry cs witness opts =
     (case newSolver registry cs witness opts of
        Inl p \<Rightarrow> Inl p
      | Inr (Inl e) \<Rightarrow> Inr (Inl e)
      | Inr (Inr s) \<Rightarrow>
         (case run sched numCPU s of
            Inl p \<Rightarrow> Inl p
          | Inr (s', Some e) \<Rightarrow> Inr (Inl e)
          | Inr (s', None) \<Rightarrow>
              Inr (Inr \<lparr>Sol_W = Svalues s', Sol_A = Sa s', Sol_B = Sb s', Sol_C = Sc s'\<rparr>)))"

text \<open>The map that holds exactly the hints of a list.\<close>

definition registered :: "'a Hint list \<Rightarrow> (HintID \<Rightarrow> 'a HintFn option)" where
  "registered hs = map_of (map (\<lambda>h. (ID h, Fn h)) hs)"

subsection \<open>Values of terms and of linear expressions\<close>

text \<open>
  What \<open>accumulateInto\<close> adds for a term (the value \<open>computeTerm\<close> returns): the
  coefficients with the ids 0 to 3 are not read from the table.
\<close>

definition termVal :: "('a::field) solver \<Rightarrow> Term \<Rightarrow> 'a" where
  "termVal s t =
     (if CoeffID t = CoeffIdZero then 0
      else if CoeffID t = CoeffIdOne then Svalues s ! WireID t
      else if CoeffID t = CoeffIdTwo then Svalues s ! WireID t + Svalues s ! WireID t
      else if CoeffID t = CoeffIdMinusOne then - (Svalues s ! WireID t)
      else Coefficients (Ssystem s) ! CoeffID t * Svalues s ! WireID t)"

definition lexpVal :: "('a::field) solver \<Rightarrow> LinearExpression \<Rightarrow> 'a" where
  "lexpVal s l = sum_list (map (termVal s) l)"

text \<open>
  A term that \<open>accumulateInto\<close> can read: its wire has a value and its coefficient,
  when it is not one of the first four, is in the table.
\<close>

definition termInRange :: "'a solver \<Rightarrow> Term \<Rightarrow> bool" where
  "termInRange s t =
     (WireID t < length (solved s) \<and> WireID t < length (Svalues s) \<and>
      (CoeffID t \<le> CoeffIdMinusOne \<or> CoeffID t < length (Coefficients (Ssystem s))))"



section \<open>What a solved system satisfies\<close>









section \<open>Round trip of the generic R1C blueprint\<close>

lemma length_flatten: "length (flatten l) = 2 * length l"
  by (induction l) (simp_all add: flatten_def)

lemma flatten_Cons: "flatten (t # l) = CID t # VID t # flatten l"
  by (simp add: flatten_def)

lemma flatten_Nil: "flatten [] = []"
  by (simp add: flatten_def)

lemma foldl_appendTerm: "foldl appendTerm r l = r @ flatten l"
  by (induction l arbitrary: r) (simp_all add: flatten_def appendTerm_def CoeffID_def WireID_def)

lemma copyTerms_flatten:
  "length sl = k + length l \<Longrightarrow>
   copyTerms (pre @ flatten l @ post) (length l) k (length pre) sl = Inr (take k sl @ l)"
proof (induction l arbitrary: k pre sl)
  case Nil
  then show ?case by (simp add: flatten_Nil)
next
  case (Cons t l)
  let ?sl = "sl[k := \<lparr>CID = CID t, VID = VID t\<rparr>]"
  have len: "length ?sl = Suc k + length l"
    using Cons.prems by simp
  have step: "copyTerms (pre @ flatten (t # l) @ post) (length (t # l)) k (length pre) sl
      = copyTerms ((pre @ [CID t, VID t]) @ flatten l @ post) (length l) (Suc k)
          (length (pre @ [CID t, VID t])) ?sl"
    by (simp add: flatten_Cons nth_append)
  have "take (Suc k) ?sl = take k sl @ [t]"
    using Cons.prems by (simp add: take_Suc_conv_app_nth)
  with Cons.IH [OF len, of "pre @ [CID t, VID t]"] step show ?case
    by simp
qed

lemma copySlice_flatten:
  "calldata = pre @ flatten l @ post \<Longrightarrow> idx = length pre \<Longrightarrow> n = length l \<Longrightarrow>
   copySlice calldata sl n idx = Inr l"
  using copyTerms_flatten [of _ 0 l pre post]
  by (simp add: copySlice_def)

lemma unat_word_of_nat32: "n < 4294967296 \<Longrightarrow> unat (word_of_nat n :: u32) = n"
  by (simp add: unat_of_nat)

lemma CompressR1C_flat:
  "CompressR1C c =
     [word_of_nat (4 + 2 * (length (R1C_L c) + length (R1C_R c) + length (R1C_O c))),
      word_of_nat (length (R1C_L c)), word_of_nat (length (R1C_R c)),
      word_of_nat (length (R1C_O c))]
     @ flatten (R1C_L c) @ flatten (R1C_R c) @ flatten (R1C_O c)"
  by (simp add: CompressR1C_def Let_def foldl_appendTerm)

lemma DecompressR1C_flat:
  assumes "calldata = [w0, word_of_nat (length l), word_of_nat (length r), word_of_nat (length oo)]
             @ flatten l @ flatten r @ flatten oo"
    and "length l < 4294967296" and "length r < 4294967296" and "length oo < 4294967296"
  shows "DecompressR1C into calldata = Inr \<lparr>R1C_L = l, R1C_R = r, R1C_O = oo\<rparr>"
proof -
  let ?h = "[w0, word_of_nat (length l), word_of_nat (length r), word_of_nat (length oo)]"
  have cl: "copySlice calldata (R1C_L into) (length l) 4 = Inr l"
    by (rule copySlice_flatten [of _ ?h l "flatten r @ flatten oo"]) (simp_all add: assms(1))
  have cr: "copySlice calldata (R1C_R into) (length r) (4 + 2 * length l) = Inr r"
    by (rule copySlice_flatten [of _ "?h @ flatten l" r "flatten oo"])
      (simp_all add: assms(1) length_flatten)
  have co: "copySlice calldata (R1C_O into) (length oo) (4 + 2 * (length l + length r)) = Inr oo"
    by (rule copySlice_flatten [of _ "?h @ flatten l @ flatten r" oo "[]"])
      (simp_all add: assms(1) length_flatten)
  have "length calldata \<ge> 4"
    using assms(1) by simp
  moreover have "unat (calldata ! 1) = length l" "unat (calldata ! 2) = length r"
      "unat (calldata ! 3) = length oo"
    using assms by (simp_all add: unat_word_of_nat32)
  ultimately show ?thesis
    using cl cr co by (simp add: DecompressR1C_def)
qed

text \<open>
  Claim C6, as the code has it. Every length is stored in one \<open>uint32\<close> word of the
  call data. For an R1C whose three linear expressions have fewer than \<open>2^32\<close> terms
  each, decompressing the compressed call data gives the R1C back, term for term
  and in order, whatever the destination held before.
\<close>

theorem DecompressR1C_CompressR1C:
  assumes "length (R1C_L c) < 4294967296" and "length (R1C_R c) < 4294967296"
    and "length (R1C_O c) < 4294967296"
  shows "DecompressR1C into (CompressR1C c) = Inr c"
proof -
  have "DecompressR1C into (CompressR1C c)
      = Inr \<lparr>R1C_L = R1C_L c, R1C_R = R1C_R c, R1C_O = R1C_O c\<rparr>"
    by (rule DecompressR1C_flat [OF CompressR1C_flat assms])
  then show ?thesis by simp
qed

theorem DecompressR1C_CompressR1C_witness:
  "DecompressR1C \<lparr>R1C_L = [], R1C_R = [\<lparr>CID = 7, VID = 7\<rparr>], R1C_O = []\<rparr>
     (CompressR1C \<lparr>R1C_L = [\<lparr>CID = 1, VID = 2\<rparr>, \<lparr>CID = 5, VID = 0\<rparr>],
                   R1C_R = [\<lparr>CID = 1, VID = 3\<rparr>], R1C_O = [\<lparr>CID = 3, VID = 1\<rparr>]\<rparr>)
   = Inr \<lparr>R1C_L = [\<lparr>CID = 1, VID = 2\<rparr>, \<lparr>CID = 5, VID = 0\<rparr>],
           R1C_R = [\<lparr>CID = 1, VID = 3\<rparr>], R1C_O = [\<lparr>CID = 3, VID = 1\<rparr>]\<rparr>"
  by (rule DecompressR1C_CompressR1C) simp_all

text \<open>
  The claim as stated (for every R1C) fails where a length does not fit the word:
  with \<open>2^32\<close> terms in \<open>L\<close> the stored length is 0 and \<open>L\<close> comes back empty.
\<close>

lemma DecompressR1C_truncated:
  assumes "length l = 4294967296"
  shows "DecompressR1C \<lparr>R1C_L = [], R1C_R = [], R1C_O = []\<rparr>
           (CompressR1C \<lparr>R1C_L = l, R1C_R = [], R1C_O = []\<rparr>)
         = Inr \<lparr>R1C_L = [], R1C_R = [], R1C_O = []\<rparr>"
  using assms
  by (simp add: CompressR1C_flat DecompressR1C_def copySlice_def flatten_Nil)

theorem DecompressR1C_CompressR1C_counterexample:
  "DecompressR1C \<lparr>R1C_L = [], R1C_R = [], R1C_O = []\<rparr>
     (CompressR1C \<lparr>R1C_L = replicate 4294967296 \<lparr>CID = 1, VID = 0\<rparr>, R1C_R = [], R1C_O = []\<rparr>)
   = Inr \<lparr>R1C_L = [], R1C_R = [], R1C_O = []\<rparr>"
  by (rule DecompressR1C_truncated) (rule length_replicate)

section \<open>Round trip of the generic hint blueprint\<close>

lemma foldl_appendInput: "foldl appendInput r ins = r @ flattenInputs ins"
  by (induction ins arbitrary: r) (simp_all add: flattenInputs_def appendInput_def foldl_appendTerm)

lemma foldl_countInput: "foldl countInput n ins = n + length (flattenInputs ins)"
  by (induction ins arbitrary: n) (simp_all add: flattenInputs_def countInput_def length_flatten)

lemma CompressHint_flat:
  "CompressHint h =
     Inr ([word_of_nat (5 + length (flattenInputs (Inputs h))), ucast (HintID h),
           word_of_nat (length (Inputs h))]
          @ flattenInputs (Inputs h) @ [Start (OutputRange h), End (OutputRange h)])"
  by (simp add: CompressHint_def Let_def foldl_appendInput foldl_countInput)

lemma Term_eta: "\<lparr>CID = CID t, VID = VID t\<rparr> = (t::Term)"
  by (cases t) simp

lemma readTerms_flatten:
  "calldata = pre @ flatten l @ post \<Longrightarrow> j = length pre \<Longrightarrow> n = length l \<Longrightarrow>
   readTerms calldata n j acc = Inr (acc @ l, j + 2 * length l)"
proof (induction l arbitrary: pre j n acc)
  case Nil
  then show ?case by simp
next
  case (Cons t l)
  have "calldata = (pre @ [CID t, VID t]) @ flatten l @ post"
    using Cons.prems(1) by (simp add: flatten_Cons)
  from Cons.IH [OF this, of "j + 2" "length l" "acc @ [t]"] Cons.prems
  show ?case by (simp add: flatten_Cons nth_append Term_eta)
qed

lemma readInputs_flatten:
  "calldata = pre @ flattenInputs ins @ post \<Longrightarrow> j = length pre \<Longrightarrow> m = length ins \<Longrightarrow>
   length ins0 = i + length ins \<Longrightarrow> \<forall>l \<in> set ins. length l < 4294967296 \<Longrightarrow>
   readInputs calldata m i j ins0 = Inr (take i ins0 @ ins, j + length (flattenInputs ins))"
proof (induction ins arbitrary: pre j m i ins0)
  case Nil
  then show ?case by (simp add: flattenInputs_def)
next
  case (Cons l ins)
  let ?w = "word_of_nat (length l) :: u32"
  have cd: "calldata = (pre @ [?w]) @ flatten l @ (flattenInputs ins @ post)"
    using Cons.prems(1) by (simp add: flattenInputs_def)
  have jlt: "j < length calldata" and atj: "calldata ! j = ?w"
    using Cons.prems(1,2) by (simp_all add: flattenInputs_def nth_append)
  have n: "unat (calldata ! j) = length l"
    using Cons.prems(5) atj by (simp add: unat_word_of_nat32)
  have rt: "readTerms calldata (unat (calldata ! j)) (j + 1) [] = Inr (l, j + 1 + 2 * length l)"
    using readTerms_flatten [OF cd, of "j + 1" "length l" "[]"] Cons.prems(2) n by simp
  have cd': "calldata = (pre @ ?w # flatten l) @ flattenInputs ins @ post"
    using cd by simp
  have len': "length (ins0[i := l]) = (i + 1) + length ins"
    using Cons.prems(4) by simp
  have "readInputs calldata (length ins) (i + 1) (j + 1 + 2 * length l) (ins0[i := l])
      = Inr (take (i + 1) (ins0[i := l]) @ ins, (j + 1 + 2 * length l) + length (flattenInputs ins))"
    using Cons.prems(2,5)
    by (intro Cons.IH [OF cd' _ _ len']) (simp_all add: length_flatten)
  moreover have "take (i + 1) (ins0[i := l]) = take i ins0 @ [l]"
    using Cons.prems(4) by (simp add: take_Suc_conv_app_nth)
  moreover have "length (flattenInputs (l # ins)) = 1 + 2 * length l + length (flattenInputs ins)"
    by (simp add: flattenInputs_def length_flatten)
  ultimately show ?case
    using jlt rt Cons.prems(3) by simp
qed

lemma ucast_ucast_64_32:
  assumes "x < 4294967296"
  shows "(ucast (ucast (x::64 word) :: u32) :: 64 word) = x"
proof -
  have "unat x < 2 ^ 32"
    using assms by (simp add: word_less_nat_alt)
  then have "unat (ucast (ucast x :: u32) :: 64 word) = unat x"
    by (simp add: unsigned_ucast_eq unsigned_take_bit_eq take_bit_nat_eq_self_iff)
  then show ?thesis
    by (simp add: word_unat_eq_iff)
qed

lemma DecompressHint_flat:
  assumes cd: "calldata = [w0, w1, word_of_nat (length ins)] @ flattenInputs ins @ [s, e]"
    and "length ins < 4294967296" and small: "\<forall>l \<in> set ins. length l < 4294967296"
  shows "DecompressHint into calldata
         = Inr \<lparr>HintID = ucast w1, Inputs = ins, OutputRange = \<lparr>Start = s, End = e\<rparr>\<rparr>"
proof -
  let ?n = "length (flattenInputs ins)"
  let ?ins0 = "if length ins \<le> length (Inputs into) then take (length ins) (Inputs into)
               else replicate (length ins) []"
  have n: "unat (calldata ! 2) = length ins"
    using assms(2) cd by (simp add: unat_word_of_nat32)
  have "length ?ins0 = 0 + length ins"
    by simp
  from readInputs_flatten [OF cd _ _ this small, of 3]
  have ri: "readInputs calldata (length ins) 0 3 ?ins0 = Inr (ins, 3 + ?n)"
    by simp
  have "calldata ! (3 + ?n) = s" "calldata ! (3 + ?n + 1) = e" "3 + ?n + 1 < length calldata"
    "calldata ! 1 = w1" "\<not> length calldata < 3"
    using cd by (simp_all add: nth_append)
  then show ?thesis
    using n ri by (simp add: DecompressHint_def Let_def)
qed

text \<open>
  Claim C5, as the code has it. The hint identifier is stored in one \<open>uint32\<close> word of
  the call data, and so is every length. For a hint mapping whose identifier is
  below \<open>2^32\<close>, with fewer than \<open>2^32\<close> inputs of fewer than \<open>2^32\<close> terms each,
  compression succeeds and decompressing its result gives the mapping back:
  same identifier, same inputs term for term, same output range.
\<close>

theorem DecompressHint_CompressHint:
  assumes "HintID h < 4294967296" and "length (Inputs h) < 4294967296"
    and "\<forall>l \<in> set (Inputs h). length l < 4294967296"
  shows "\<exists>calldata. CompressHint h = Inr calldata \<and> DecompressHint into calldata = Inr h"
proof -
  let ?cd = "[word_of_nat (5 + length (flattenInputs (Inputs h))), ucast (HintID h),
              word_of_nat (length (Inputs h))]
             @ flattenInputs (Inputs h) @ [Start (OutputRange h), End (OutputRange h)]"
  have "DecompressHint into ?cd
      = Inr \<lparr>HintID = ucast (ucast (HintID h) :: u32), Inputs = Inputs h,
              OutputRange = \<lparr>Start = Start (OutputRange h), End = End (OutputRange h)\<rparr>\<rparr>"
    by (rule DecompressHint_flat [OF refl assms(2,3)])
  then have "DecompressHint into ?cd = Inr h"
    using assms(1) by (simp add: ucast_ucast_64_32)
  then show ?thesis
    using CompressHint_flat [of h] by blast
qed

theorem DecompressHint_CompressHint_witness:
  "\<exists>calldata.
     CompressHint \<lparr>HintID = 4294967295,
                   Inputs = [[\<lparr>CID = 1, VID = 2\<rparr>, \<lparr>CID = 5, VID = 4294967295\<rparr>], []],
                   OutputRange = \<lparr>Start = 7, End = 9\<rparr>\<rparr> = Inr calldata \<and>
     DecompressHint \<lparr>HintID = 3, Inputs = [[\<lparr>CID = 0, VID = 0\<rparr>]],
                     OutputRange = \<lparr>Start = 0, End = 0\<rparr>\<rparr> calldata
       = Inr \<lparr>HintID = 4294967295,
               Inputs = [[\<lparr>CID = 1, VID = 2\<rparr>, \<lparr>CID = 5, VID = 4294967295\<rparr>], []],
               OutputRange = \<lparr>Start = 7, End = 9\<rparr>\<rparr>"
  by (rule DecompressHint_CompressHint) simp_all

text \<open>
  The claim as stated (any 64-bit hint id) fails from \<open>2^32\<close> on: the identifier
  \<open>2^32\<close> is stored as 0 and comes back as 0.
\<close>

theorem DecompressHint_CompressHint_counterexample:
  "CompressHint \<lparr>HintID = 4294967296, Inputs = [], OutputRange = \<lparr>Start = 0, End = 1\<rparr>\<rparr>
     = Inr [5, 0, 0, 0, 1] \<and>
   DecompressHint \<lparr>HintID = 0, Inputs = [], OutputRange = \<lparr>Start = 0, End = 0\<rparr>\<rparr> [5, 0, 0, 0, 1]
     = Inr \<lparr>HintID = 0, Inputs = [], OutputRange = \<lparr>Start = 0, End = 1\<rparr>\<rparr>"
  by (simp add: CompressHint_def DecompressHint_def)


section \<open>Registration of hints\<close>

lemma RegisterHint_fresh:
  "\<forall>h \<in> set pre. registry (ID h) = None \<Longrightarrow> distinct (map ID pre) \<Longrightarrow>
   RegisterHint (pre @ rest) registry = RegisterHint rest (registry ++ registered pre)"
proof (induction pre arbitrary: registry)
  case Nil
  then show ?case by (simp add: registered_def)
next
  case (Cons h pre)
  have "ID h \<notin> ID ` set pre"
    using Cons.prems(2) by simp
  then have neq: "\<forall>x \<in> set pre. ID x \<noteq> ID h"
    by (metis imageI)
  then have fresh: "\<forall>x \<in> set pre. (registry(ID h \<mapsto> Fn h)) (ID x) = None"
    using Cons.prems(1) by simp
  have d: "distinct (map ID pre)"
    using Cons.prems(2) by simp
  have eq: "(registry(ID h \<mapsto> Fn h)) ++ registered pre = registry ++ registered (h # pre)"
  proof
    fix k
    show "((registry(ID h \<mapsto> Fn h)) ++ registered pre) k = (registry ++ registered (h # pre)) k"
      using Cons.prems(2)
      by (auto simp: registered_def map_add_def split: option.splits dest!: map_of_SomeD)
  qed
  have "RegisterHint ((h # pre) @ rest) registry = RegisterHint (pre @ rest) (registry(ID h \<mapsto> Fn h))"
    using Cons.prems(1) by simp
  also have "\<dots> = RegisterHint rest ((registry(ID h \<mapsto> Fn h)) ++ registered pre)"
    by (rule Cons.IH [OF fresh d])
  finally show ?case
    by (simp only: eq)
qed

lemma registered_Some:
  "distinct (map ID hs) \<Longrightarrow> h \<in> set hs \<Longrightarrow> registered hs (ID h) = Some (Fn h)"
proof (induction hs)
  case Nil
  then show ?case by simp
next
  case (Cons a hs)
  show ?case
  proof (cases "h = a")
    case True
    then show ?thesis by (simp add: registered_def)
  next
    case False
    then have "h \<in> set hs" using Cons.prems(2) by simp
    moreover have "ID a \<notin> ID ` set hs" using Cons.prems(1) by simp
    ultimately have "ID h \<noteq> ID a" by (metis imageI)
    then show ?thesis
      using Cons.IH Cons.prems \<open>h \<in> set hs\<close> by (simp add: registered_def)
  qed
qed

lemma registered_None: "k \<notin> ID ` set hs \<Longrightarrow> registered hs k = None"
  by (induction hs) (auto simp: registered_def)

text \<open>
  Claim C10. Let \<open>dup\<close> be the first hint of the list whose id the registry already
  holds: the hints \<open>pre\<close> before it have fresh, pairwise different ids. Then
  \<open>RegisterHint\<close> does what it would do on \<open>pre\<close> alone: the entry of \<open>dup\<close>'s id is
  the old one, every hint of \<open>pre\<close> is registered, and a hint after \<open>dup\<close> whose id is
  new is not registered.
\<close>

theorem RegisterHint_stops_at_duplicate:
  assumes "\<forall>h \<in> set pre. registry (ID h) = None" and "distinct (map ID pre)"
    and "registry (ID dup) = Some f"
  shows "RegisterHint (pre @ dup # post) registry = RegisterHint pre registry \<and>
         RegisterHint (pre @ dup # post) registry (ID dup) = Some f \<and>
         (\<forall>h \<in> set pre. RegisterHint (pre @ dup # post) registry (ID h) = Some (Fn h)) \<and>
         (\<forall>h \<in> set post. registry (ID h) = None \<and> ID h \<notin> ID ` set pre \<longrightarrow>
            RegisterHint (pre @ dup # post) registry (ID h) = None)"
proof -
  have notin: "ID dup \<notin> ID ` set pre"
    using assms(1,3) by force
  have stop: "RegisterHint (pre @ dup # post) registry = registry ++ registered pre"
    using RegisterHint_fresh [OF assms(1,2), of "dup # post"] assms(3) notin
    by (simp add: map_add_def registered_None)
  have pre: "RegisterHint pre registry = registry ++ registered pre"
    using RegisterHint_fresh [OF assms(1,2), of "[]"] by simp
  show ?thesis
    using notin assms(2,3)
    by (auto simp: stop pre map_add_def registered_None registered_Some)
qed

theorem RegisterHint_stops_at_duplicate_witness:
  "RegisterHint
     [\<lparr>ID = 7, Fn = (\<lambda>q ins outs. (outs, None))\<rparr>,
      \<lparr>ID = 5, Fn = (\<lambda>q ins outs. ([1], None))\<rparr>,
      \<lparr>ID = 9, Fn = (\<lambda>q ins outs. ([2], None))\<rparr>]
     [5 \<mapsto> (\<lambda>q ins outs. ([0], None))] 5 = Some (\<lambda>q ins outs. ([0], None)) \<and>
   RegisterHint
     [\<lparr>ID = 7, Fn = (\<lambda>q ins outs. (outs, None))\<rparr>,
      \<lparr>ID = 5, Fn = (\<lambda>q ins outs. ([1], None))\<rparr>,
      \<lparr>ID = 9, Fn = (\<lambda>q ins outs. ([2], None))\<rparr>]
     [5 \<mapsto> (\<lambda>q ins outs. ([0], None))] 7 = Some (\<lambda>q ins outs. (outs, None)) \<and>
   RegisterHint
     [\<lparr>ID = 7, Fn = (\<lambda>q ins outs. (outs, None))\<rparr>,
      \<lparr>ID = 5, Fn = (\<lambda>q ins outs. ([1], None))\<rparr>,
      \<lparr>ID = 9, Fn = (\<lambda>q ins outs. ([2], None))\<rparr>]
     [5 \<mapsto> (\<lambda>q ins outs. ([0], None))] 9 = None"
  using RegisterHint_stops_at_duplicate
    [of "[\<lparr>ID = 7, Fn = (\<lambda>q ins outs. (outs, None))\<rparr>]" "[5 \<mapsto> (\<lambda>q ins outs. ([0], None))]"
        "\<lparr>ID = 5, Fn = (\<lambda>q ins outs. ([1], None))\<rparr>" "(\<lambda>q ins outs. ([0], None))"
        "[\<lparr>ID = 9, Fn = (\<lambda>q ins outs. ([2], None))\<rparr>]"]
  by simp


section \<open>Dispatch of a level\<close>





section \<open>Missing hints\<close>

lemma missingHints_filter:
  "missingHints deps hintFunctions missing
     = missing @ map snd (filter (\<lambda>(hintUUID, hintID). hintFunctions hintUUID = None) deps)"
  by (induction deps arbitrary: missing) (auto split: option.splits)

lemma foldl_map_add_None:
  "foldl (++) m ms k = None \<longleftrightarrow> m k = None \<and> (\<forall>m' \<in> set ms. m' k = None)"
  by (induction ms arbitrary: m) auto

text \<open>
  Claim C7, as the code has it. \<open>newSolver\<close> tests the size of the witness first.
  When the witness has the expected size and some hint of the system's hint
  dependencies has a function neither in the global registry nor in the options,
  \<open>newSolver\<close> returns the error that lists the names of the hints without a
  function, and \<open>Solve\<close> returns that error: no solver state has been built, no
  instruction has been processed and no wire has a value.
\<close>

theorem Solve_missing_hints:
  assumes "int (length witness)
             = int (length (Public cs)) - (if Type cs = ConstrainSystemTypeR1CS then 1 else 0)
               + int (length (Secret cs))"
    and "(hintUUID, hintID) \<in> set (MHintsDependencies cs)"
    and "registry hintUUID = None" and "\<forall>opt \<in> set opts. opt hintUUID = None"
  shows "hintID \<in> set (map snd (filter (\<lambda>(u, n). foldl (++) registry opts u = None) (MHintsDependencies cs))) \<and>
         newSolver registry cs witness opts
           = Inr (Inl (ErrMissingHints (map snd (filter (\<lambda>(u, n). foldl (++) registry opts u = None)
                                                  (MHintsDependencies cs))))) \<and>
         Solve sched numCPU registry cs witness opts
           = Inr (Inl (ErrMissingHints (map snd (filter (\<lambda>(u, n). foldl (++) registry opts u = None)
                                                  (MHintsDependencies cs)))))"
proof -
  let ?hf = "foldl (++) registry opts"
  let ?missing = "map snd (filter (\<lambda>(u, n). ?hf u = None) (MHintsDependencies cs))"
  have none: "?hf hintUUID = None"
    using assms(3,4) by (simp add: foldl_map_add_None)
  then have "(hintUUID, hintID) \<in> set (filter (\<lambda>(u, n). ?hf u = None) (MHintsDependencies cs))"
    using assms(2) by simp
  then have mem: "hintID \<in> set ?missing"
    by force
  then have "0 < length ?missing"
    by (cases ?missing) simp_all
  then have new: "newSolver registry cs witness opts = Inr (Inl (ErrMissingHints ?missing))"
    using assms(1)
    by (simp add: newSolver_def NewConfig_def GetRegisteredHints_def missingHints_filter Let_def)
  then show ?thesis
    using mem by (simp add: Solve_def)
qed

theorem Solve_missing_hints_witness:
  "Solve (\<lambda>n. []) 4 Map.empty
     \<lparr>Type = 1, Instructions = [], Blueprints = [BlueprintGenericHint], CallData = [], CallDataSpare = [],
      NbConstraints = 0, NbInternalVariables = 1, Public = [''1''], Secret = [''X''],
      MHintsDependencies = [(5, ''inv_zero'')], Levels = [], Coefficients = [0, 1],
      Sys_q = 7\<rparr>
     [2::'a::field] [Map.empty]
   = Inr (Inl (ErrMissingHints [''inv_zero'']))"
  using Solve_missing_hints
    [of "[2::'a]" "\<lparr>Type = 1, Instructions = [], Blueprints = [BlueprintGenericHint], CallData = [], CallDataSpare = [],
      NbConstraints = 0, NbInternalVariables = 1, Public = [''1''], Secret = [''X''],
      MHintsDependencies = [(5, ''inv_zero'')], Levels = [], Coefficients = [0, 1],
      Sys_q = 7\<rparr>" 5 "''inv_zero''" Map.empty "[Map.empty]" "\<lambda>n. []" 4]
  by (simp add: ConstrainSystemTypeR1CS_def)

text \<open>
  The claim as stated fails when the witness has the wrong size as well: the error
  is then the one about the size, and the missing hint is not reported.
\<close>

theorem Solve_missing_hints_counterexample:
  "Solve (\<lambda>n. []) 4 Map.empty
     \<lparr>Type = 1, Instructions = [], Blueprints = [BlueprintGenericHint], CallData = [], CallDataSpare = [],
      NbConstraints = 0, NbInternalVariables = 1, Public = [''1''], Secret = [''X''],
      MHintsDependencies = [(5, ''inv_zero'')], Levels = [], Coefficients = [0, 1],
      Sys_q = 7\<rparr>
     [] [Map.empty]
   = Inr (Inl (ErrInvalidWitnessSize 0 1))"
  by (simp add: Solve_def newSolver_def NewConfig_def ConstrainSystemTypeR1CS_def)


section \<open>Hints that fail\<close>

lemma setOutputs_unsolved:
  "length (Svalues s) = length (solved s) \<Longrightarrow> k + length xs \<le> length (solved s) \<Longrightarrow>
   \<forall>i < length xs. \<not> solved s ! (k + i) \<Longrightarrow>
   \<exists>s'. setOutputs k xs s = Inr s' \<and>
        length (Svalues s') = length (solved s') \<and> length (solved s') = length (solved s) \<and>
        (\<forall>i < length xs. solved s' ! (k + i) \<and> Svalues s' ! (k + i) = of_int (xs ! i)) \<and>
        (\<forall>j < k. solved s' ! j = solved s ! j \<and> Svalues s' ! j = Svalues s ! j) \<and>
        nbSolved s' = nbSolved s + length xs"
proof (induction xs arbitrary: k s)
  case Nil
  then show ?case by simp
next
  case (Cons x xs)
  let ?s1 = "s\<lparr>Svalues := (Svalues s)[k := of_int x], solved := (solved s)[k := True],
                nbSolved := nbSolved s + 1\<rparr>"
  have k: "k < length (solved s)" and unsolved: "\<not> solved s ! k"
    using Cons.prems(2) Cons.prems(3) [rule_format, of 0] by simp_all
  have step: "set_wire k (of_int x) s = Inr ?s1"
    using k unsolved Cons.prems(1) by (simp add: set_wire_def)
  have "\<forall>i < length xs. \<not> solved ?s1 ! (Suc k + i)"
    using Cons.prems(3) [rule_format, of "Suc i" for i] by simp
  moreover have "length (Svalues ?s1) = length (solved ?s1)" "Suc k + length xs \<le> length (solved ?s1)"
    using Cons.prems(1,2) by simp_all
  ultimately obtain s' where s': "setOutputs (Suc k) xs ?s1 = Inr s'"
      "length (Svalues s') = length (solved s')" "length (solved s') = length (solved ?s1)"
      "\<forall>i < length xs. solved s' ! (Suc k + i) \<and> Svalues s' ! (Suc k + i) = of_int (xs ! i)"
      "\<forall>j < Suc k. solved s' ! j = solved ?s1 ! j \<and> Svalues s' ! j = Svalues ?s1 ! j"
      "nbSolved s' = nbSolved ?s1 + length xs"
    using Cons.IH [of ?s1 "Suc k"] by blast
  have at_k: "solved s' ! k" "Svalues s' ! k = of_int x"
    using s'(5) k Cons.prems(1) by simp_all
  have "solved s' ! (k + i) \<and> Svalues s' ! (k + i) = of_int ((x # xs) ! i)" if "i < length (x # xs)" for i
    using that at_k s'(4) by (cases i) simp_all
  moreover have "solved s' ! j = solved s ! j \<and> Svalues s' ! j = Svalues s ! j" if "j < k" for j
    using that s'(5) by simp
  ultimately show ?case
    using step s'(1,2,3,6) by simp
qed

lemma length_fitOutputs: "length (fitOutputs n outs) = n"
  by (simp add: fitOutputs_def)

text \<open>
  Claim C8, as the code has it. \<open>solveWithHint\<close> keeps the error of the hint function
  in \<open>err\<close>, runs the loop that assigns the outputs, and returns \<open>err\<close> last. When the
  hint function returns an error and the wires of the output range are in range
  and not yet solved, the error reaches the caller after every wire of the range
  has been given the value left in its output and marked solved.
\<close>

theorem solveWithHint_error:
  assumes "mHintsFunctions s (HintID h) = Some f"
    and "hintInputs s (Inputs h) = Inr inputs"
    and "n = unat (End (OutputRange h) - Start (OutputRange h))"
    and "f (Sq s) inputs (replicate n 0) = (outs, Some msg)"
    and "length (Svalues s) = length (solved s)"
    and "unat (Start (OutputRange h)) + n \<le> length (solved s)"
    and "\<forall>i < n. \<not> solved s ! (unat (Start (OutputRange h)) + i)"
  shows "\<exists>s'. solveWithHint h s = Inr (s', Some (ErrHint msg)) \<and>
              (\<forall>i < n. solved s' ! (unat (Start (OutputRange h)) + i) \<and>
                       Svalues s' ! (unat (Start (OutputRange h)) + i) = of_int (fitOutputs n outs ! i)) \<and>
              nbSolved s' = nbSolved s + n"
proof -
  let ?k = "unat (Start (OutputRange h))"
  obtain s' where s': "setOutputs ?k (fitOutputs n outs) s = Inr s'"
      "\<forall>i < n. solved s' ! (?k + i) \<and> Svalues s' ! (?k + i) = of_int (fitOutputs n outs ! i)"
      "nbSolved s' = nbSolved s + n"
    using setOutputs_unsolved [of s ?k "fitOutputs n outs"] assms(5,6,7)
    by (auto simp: length_fitOutputs)
  have "solveWithHint h s = Inr (s', Some (ErrHint msg))"
    using assms(1,2,4) s'(1) by (simp add: solveWithHint_def Let_def assms(3) [symmetric])
  then show ?thesis
    using s'(2,3) by blast
qed

theorem solveWithHint_error_witness:
  "\<exists>s'. solveWithHint \<lparr>HintID = 5, Inputs = [[\<lparr>CID = 1, VID = 0\<rparr>]], OutputRange = \<lparr>Start = 1, End = 2\<rparr>\<rparr>
       \<lparr>Ssystem = \<lparr>Type = 1, Instructions = [], Blueprints = [], CallData = [], CallDataSpare = [], NbConstraints = 0,
                  NbInternalVariables = 1, Public = [''1''], Secret = [],
                  MHintsDependencies = [(5, ''h'')], Levels = [], Coefficients = [0, 1, 2, - 1, - 2],
                  Sys_q = 7\<rparr>,
       Svalues = [1, 0::'a::field], solved = [True, False], nbSolved = 1,
       mHintsFunctions = [5 \<mapsto> (\<lambda>q ins outs. ([9], Some ''hint failed''))],
       Sa = [], Sb = [], Sc = [], Sq = 7\<rparr>
     = Inr (s', Some (ErrHint ''hint failed'')) \<and>
     solved s' ! 1 \<and> Svalues s' ! 1 = 9 \<and> nbSolved s' = 2"
  using solveWithHint_error
    [of "\<lparr>Ssystem = \<lparr>Type = 1, Instructions = [], Blueprints = [], CallData = [], CallDataSpare = [], NbConstraints = 0,
                  NbInternalVariables = 1, Public = [''1''], Secret = [],
                  MHintsDependencies = [(5, ''h'')], Levels = [], Coefficients = [0, 1, 2, - 1, - 2],
                  Sys_q = 7\<rparr>,
       Svalues = [1, 0::'a], solved = [True, False], nbSolved = 1,
       mHintsFunctions = [5 \<mapsto> (\<lambda>q ins outs. ([9], Some ''hint failed''))],
       Sa = [], Sb = [], Sc = [], Sq = 7\<rparr>"
        "\<lparr>HintID = 5, Inputs = [[\<lparr>CID = 1, VID = 0\<rparr>]], OutputRange = \<lparr>Start = 1, End = 2\<rparr>\<rparr>"
        "\<lambda>q ins outs. ([9], Some ''hint failed'')" "[1]" 1 "[9]" "''hint failed''"]
  by (simp add: accumulateInto_def IsConstant_def CoeffID_def WireID_def CoeffIdZero_def
      CoeffIdOne_def fitOutputs_def numeral_2_eq_2)

text \<open>
  The claim as stated fails: with a hint function that returns an error, the
  output wire 1 has a value and is marked solved when \<open>solveWithHint\<close> returns the
  error.
\<close>

theorem solveWithHint_error_counterexample:
  "solveWithHint \<lparr>HintID = 5, Inputs = [[\<lparr>CID = 1, VID = 0\<rparr>]], OutputRange = \<lparr>Start = 1, End = 2\<rparr>\<rparr>
     \<lparr>Ssystem = \<lparr>Type = 1, Instructions = [], Blueprints = [], CallData = [], CallDataSpare = [], NbConstraints = 0,
                  NbInternalVariables = 1, Public = [''1''], Secret = [],
                  MHintsDependencies = [(5, ''h'')], Levels = [], Coefficients = [0, 1, 2, - 1, - 2],
                  Sys_q = 7\<rparr>,
       Svalues = [1, 0::'a::field], solved = [True, False], nbSolved = 1,
       mHintsFunctions = [5 \<mapsto> (\<lambda>q ins outs. ([9], Some ''hint failed''))],
       Sa = [], Sb = [], Sc = [], Sq = 7\<rparr>
   = Inr (\<lparr>Ssystem = \<lparr>Type = 1, Instructions = [], Blueprints = [], CallData = [], CallDataSpare = [], NbConstraints = 0,
                  NbInternalVariables = 1, Public = [''1''], Secret = [],
                  MHintsDependencies = [(5, ''h'')], Levels = [], Coefficients = [0, 1, 2, - 1, - 2],
                  Sys_q = 7\<rparr>,
       Svalues = [1, 9], solved = [True, True], nbSolved = 2,
       mHintsFunctions = [5 \<mapsto> (\<lambda>q ins outs. ([9], Some ''hint failed''))],
       Sa = [], Sb = [], Sc = [], Sq = 7\<rparr>,
          Some (ErrHint ''hint failed''))"
  by (simp add: solveWithHint_def accumulateInto_def IsConstant_def CoeffID_def WireID_def
      CoeffIdZero_def CoeffIdOne_def fitOutputs_def set_wire_def)


section \<open>Solving one constraint\<close>

lemmas CoeffId_defs =
  CoeffIdZero_def CoeffIdOne_def CoeffIdTwo_def CoeffIdMinusOne_def CoeffIdMinusTwo_def

lemma lexpVal_simps:
  "lexpVal s [] = 0" "lexpVal s (t # l) = termVal s t + lexpVal s l"
  "lexpVal s (l @ l') = lexpVal s l + lexpVal s l'"
  by (simp_all add: lexpVal_def)

lemma accumulateInto_inRange:
  "termInRange s t \<Longrightarrow> accumulateInto s t r = Inr (r + termVal s t)"
  by (auto simp: termInRange_def accumulateInto_def termVal_def CoeffId_defs Let_def)

lemma processLExp_solved:
  "\<forall>t \<in> set l. termInRange s t \<and> solved s ! WireID t \<Longrightarrow>
   processLExp s l locValue (val, loc, tt) = Inr (val + lexpVal s l, loc, tt)"
proof (induction l arbitrary: val)
  case Nil
  then show ?case by (simp add: lexpVal_simps)
next
  case (Cons t l)
  then show ?case
    by (simp add: lexpVal_simps accumulateInto_inRange termInRange_def add.assoc)
qed

lemma processLExp_append:
  "processLExp s (l @ l') locValue st =
     (case processLExp s l locValue st of Inl p \<Rightarrow> Inl p | Inr st' \<Rightarrow> processLExp s l' locValue st')"
proof (induction l arbitrary: st)
  case Nil
  then show ?case by simp
next
  case (Cons t l)
  obtain val loc tt where st: "st = (val, loc, tt)"
    by (cases st) auto
  show ?case
    unfolding st by (auto simp: Cons.IH split: sum.split)
qed

lemma processLExp_one_unsolved:
  assumes "\<forall>t \<in> set (l1 @ l2). termInRange s t \<and> solved s ! WireID t"
    and "WireID t < length (solved s)" and "\<not> solved s ! WireID t"
  shows "processLExp s (l1 @ t # l2) locValue (val, 0, tt)
         = Inr (val + lexpVal s (l1 @ l2), locValue, t)"
proof -
  have 1: "processLExp s l1 locValue (val, 0, tt) = Inr (val + lexpVal s l1, 0, tt)"
    using assms(1) by (intro processLExp_solved) simp
  have 2: "processLExp s l2 locValue (val + lexpVal s l1, locValue, t)
           = Inr (val + lexpVal s l1 + lexpVal s l2, locValue, t)"
    using assms(1) by (intro processLExp_solved) simp
  show ?thesis
    using assms(2,3) 1 2 by (simp add: processLExp_append lexpVal_simps add.assoc)
qed

lemma instantiate_unsolved:
  assumes "WireID t < length (solved s)" and "WireID t < length (Svalues s)"
    and "\<not> solved s ! WireID t" and "divByCoeff s wire (CID t) = Inr v"
  shows "instantiate s wire t
         = Inr (s\<lparr>Svalues := (Svalues s)[WireID t := v], solved := (solved s)[WireID t := True],
                   nbSolved := nbSolved s + 1\<rparr>, None)"
  using assms by (simp add: instantiate_def set_wire_def)

lemma divByCoeff_value:
  assumes "CoeffID t \<noteq> CoeffIdZero"
    and "CoeffID t = CoeffIdOne \<or> CoeffID t = CoeffIdMinusOne
         \<or> CoeffID t < length (Coefficients (Ssystem s))"
  shows "divByCoeff s wire (CID t)
         = Inr (if CoeffID t = CoeffIdOne then wire
                else if CoeffID t = CoeffIdMinusOne then - wire
                else wire / Coefficients (Ssystem s) ! CoeffID t)"
  using assms by (auto simp: divByCoeff_def CoeffID_def CoeffId_defs)

lemma storeABC_simps:
  "Ssystem (storeABC s cid a b c) = Ssystem s" "Svalues (storeABC s cid a b c) = Svalues s"
  "solved (storeABC s cid a b c) = solved s" "nbSolved (storeABC s cid a b c) = nbSolved s"
  "mHintsFunctions (storeABC s cid a b c) = mHintsFunctions s" "Sq (storeABC s cid a b c) = Sq s"
  "Sa (storeABC s cid a b c) = (Sa s)[cid := a]" "Sb (storeABC s cid a b c) = (Sb s)[cid := b]"
  "Sc (storeABC s cid a b c) = (Sc s)[cid := c]"
  by (simp_all add: storeABC_def)

lemma divByCoeff_storeABC: "divByCoeff (storeABC s cid a b c) wire k = divByCoeff s wire k"
  by (simp add: divByCoeff_def storeABC_simps)

text \<open>The sweeps of \<open>solveR1C\<close> when the one unsolved term is on \<open>L\<close>.\<close>

lemma sweeps_unknown_on_L:
  assumes "R1C_L r = l1 @ t # l2"
    and "\<forall>u \<in> set (l1 @ l2 @ R1C_R r @ R1C_O r). termInRange s u \<and> solved s ! WireID u"
    and "WireID t < length (solved s)" and "\<not> solved s ! WireID t"
  shows "processLExp s (R1C_L r) 1 (a0, 0, tt) = Inr (a0 + lexpVal s (l1 @ l2), 1, t)"
    and "processLExp s (R1C_R r) 2 (b0, 1, t) = Inr (b0 + lexpVal s (R1C_R r), 1, t)"
    and "processLExp s (R1C_O r) 3 (c0, 1, t) = Inr (c0 + lexpVal s (R1C_O r), 1, t)"
proof -
  show "processLExp s (R1C_L r) 1 (a0, 0, tt) = Inr (a0 + lexpVal s (l1 @ l2), 1, t)"
    unfolding assms(1) using assms(2,3,4) by (intro processLExp_one_unsolved) auto
  show "processLExp s (R1C_R r) 2 (b0, 1, t) = Inr (b0 + lexpVal s (R1C_R r), 1, t)"
    using assms(2) by (intro processLExp_solved) simp
  show "processLExp s (R1C_O r) 3 (c0, 1, t) = Inr (c0 + lexpVal s (R1C_O r), 1, t)"
    using assms(2) by (intro processLExp_solved) simp
qed

text \<open>
  Claim C2. The constraint has one unsolved term \<open>t\<close>, on \<open>L\<close>; every other term is
  solved and readable; \<open>a\<close>, \<open>b\<close> and \<open>c\<close> are the accumulated values (what the vectors
  hold at the constraint plus the solved terms); \<open>b\<close> is not zero and the coefficient
  id of \<open>t\<close> is not \<open>ZERO\<close>. Then \<open>solveR1C\<close> succeeds: the term-value is
  \<open>wire = c / b - a\<close>, the vector \<open>a\<close> holds \<open>a + wire\<close>, and the wire of \<open>t\<close> is marked
  solved with the value \<open>wire\<close> for the coefficient id \<open>ONE\<close>, \<open>- wire\<close> for
  \<open>MINUS_ONE\<close>, and \<open>wire\<close> divided by the coefficient for the other ids.
\<close>

theorem solveR1C_unknown_on_L:
  assumes "unat cID < length (Sa s)" and "unat cID < length (Sb s)" and "unat cID < length (Sc s)"
    and "R1C_L r = l1 @ t # l2"
    and "\<forall>u \<in> set (l1 @ l2 @ R1C_R r @ R1C_O r). termInRange s u \<and> solved s ! WireID u"
    and "WireID t < length (solved s)" and "WireID t < length (Svalues s)"
    and "\<not> solved s ! WireID t"
    and "CoeffID t \<noteq> CoeffIdZero"
    and "CoeffID t = CoeffIdOne \<or> CoeffID t = CoeffIdMinusOne
         \<or> CoeffID t < length (Coefficients (Ssystem s))"
    and "a = Sa s ! unat cID + lexpVal s (l1 @ l2)"
    and "b = Sb s ! unat cID + lexpVal s (R1C_R r)"
    and "c = Sc s ! unat cID + lexpVal s (R1C_O r)"
    and "b \<noteq> 0" and "wire = c / b - a"
  shows "solveR1C cID r s
         = Inr (s\<lparr>Sa := (Sa s)[unat cID := a + wire], Sb := (Sb s)[unat cID := b],
                   Sc := (Sc s)[unat cID := c],
                   Svalues := (Svalues s)[WireID t :=
                     (if CoeffID t = CoeffIdOne then wire
                      else if CoeffID t = CoeffIdMinusOne then - wire
                      else wire / Coefficients (Ssystem s) ! CoeffID t)],
                   solved := (solved s)[WireID t := True],
                   nbSolved := nbSolved s + 1\<rparr>, None)"
proof -
  let ?s1 = "storeABC s (unat cID) (a + wire) b c"
  let ?v = "if CoeffID t = CoeffIdOne then wire
            else if CoeffID t = CoeffIdMinusOne then - wire
            else wire / Coefficients (Ssystem s) ! CoeffID t"
  note sw = sweeps_unknown_on_L [OF assms(4,5,6,8)]
  have "divByCoeff ?s1 wire (CID t) = Inr ?v"
    using divByCoeff_value [OF assms(9,10)] by (simp add: divByCoeff_storeABC)
  then have "instantiate ?s1 wire t
      = Inr (?s1\<lparr>Svalues := (Svalues ?s1)[WireID t := ?v], solved := (solved ?s1)[WireID t := True],
                   nbSolved := nbSolved ?s1 + 1\<rparr>, None)"
    using assms(6,7,8) by (intro instantiate_unsolved) (simp_all add: storeABC_simps)
  then have "solveR1C cID r s
      = Inr (?s1\<lparr>Svalues := (Svalues ?s1)[WireID t := ?v], solved := (solved ?s1)[WireID t := True],
                   nbSolved := nbSolved ?s1 + 1\<rparr>, None)"
    using assms(1,2,3,14) sw
    by (simp add: solveR1C_def Let_def assms(11,12,13,15) [symmetric])
  then show ?thesis
    by (simp add: storeABC_def)
qed

theorem solveR1C_unknown_on_L_witness:
  "solveR1C 0 \<lparr>R1C_L = [\<lparr>CID = 3, VID = 2\<rparr>], R1C_R = [\<lparr>CID = 1, VID = 0\<rparr>], R1C_O = [\<lparr>CID = 1, VID = 1\<rparr>]\<rparr>
     \<lparr>Ssystem = \<lparr>Type = 1, Instructions = [], Blueprints = [], CallData = [], CallDataSpare = [],
                    NbConstraints = 1, NbInternalVariables = 1, Public = [''1''], Secret = [''X''],
                    MHintsDependencies = [], Levels = [], Coefficients = [0, 1, 2, - 1, - 2],
                    Sys_q = 21888242871839275222246405745257275088548364400416034343698204186575808495617\<rparr>,
         Svalues = [1, 15, 0::'a::field], solved = [True, True, False], nbSolved = 2, mHintsFunctions = Map.empty,
         Sa = [0], Sb = [0], Sc = [0],
         Sq = 21888242871839275222246405745257275088548364400416034343698204186575808495617\<rparr>
   = Inr (\<lparr>Ssystem = \<lparr>Type = 1, Instructions = [], Blueprints = [], CallData = [], CallDataSpare = [],
                    NbConstraints = 1, NbInternalVariables = 1, Public = [''1''], Secret = [''X''],
                    MHintsDependencies = [], Levels = [], Coefficients = [0, 1, 2, - 1, - 2],
                    Sys_q = 21888242871839275222246405745257275088548364400416034343698204186575808495617\<rparr>,
         Svalues = [1, 15, - 15], solved = [True, True, True], nbSolved = 3, mHintsFunctions = Map.empty,
         Sa = [15], Sb = [1], Sc = [15],
         Sq = 21888242871839275222246405745257275088548364400416034343698204186575808495617\<rparr>, None)"
  using solveR1C_unknown_on_L
    [of 0 "\<lparr>Ssystem = \<lparr>Type = 1, Instructions = [], Blueprints = [], CallData = [], CallDataSpare = [],
                    NbConstraints = 1, NbInternalVariables = 1, Public = [''1''], Secret = [''X''],
                    MHintsDependencies = [], Levels = [], Coefficients = [0, 1, 2, - 1, - 2],
                    Sys_q = 21888242871839275222246405745257275088548364400416034343698204186575808495617\<rparr>,
         Svalues = [1, 15, 0::'a], solved = [True, True, False], nbSolved = 2, mHintsFunctions = Map.empty,
         Sa = [0], Sb = [0], Sc = [0],
         Sq = 21888242871839275222246405745257275088548364400416034343698204186575808495617\<rparr>"
        "\<lparr>R1C_L = [\<lparr>CID = 3, VID = 2\<rparr>], R1C_R = [\<lparr>CID = 1, VID = 0\<rparr>], R1C_O = [\<lparr>CID = 1, VID = 1\<rparr>]\<rparr>" "[]" "\<lparr>CID = 3, VID = 2\<rparr>" "[]" 0 1 15 15]
  by (simp add: termInRange_def lexpVal_def termVal_def WireID_def CoeffID_def CoeffId_defs)

text \<open>
  Claim C3, as the code has it. In the same situation with \<open>b = 0\<close> and \<open>c = 0\<close> the
  test \<open>a * b = c\<close> passes and the last two statements of \<open>solveR1C\<close> still run, with
  the term-value 0: the wire of \<open>t\<close> is given the value 0 and marked solved, and
  \<open>nbSolved\<close> grows by one.
\<close>

theorem solveR1C_unknown_on_L_b_zero:
  assumes "unat cID < length (Sa s)" and "unat cID < length (Sb s)" and "unat cID < length (Sc s)"
    and "R1C_L r = l1 @ t # l2"
    and "\<forall>u \<in> set (l1 @ l2 @ R1C_R r @ R1C_O r). termInRange s u \<and> solved s ! WireID u"
    and "WireID t < length (solved s)" and "WireID t < length (Svalues s)"
    and "\<not> solved s ! WireID t"
    and "CoeffID t \<noteq> CoeffIdZero"
    and "CoeffID t = CoeffIdOne \<or> CoeffID t = CoeffIdMinusOne
         \<or> CoeffID t < length (Coefficients (Ssystem s))"
    and "a = Sa s ! unat cID + lexpVal s (l1 @ l2)"
    and "Sb s ! unat cID + lexpVal s (R1C_R r) = 0"
    and "Sc s ! unat cID + lexpVal s (R1C_O r) = 0"
  shows "solveR1C cID r s
         = Inr (s\<lparr>Sa := (Sa s)[unat cID := a], Sb := (Sb s)[unat cID := 0],
                   Sc := (Sc s)[unat cID := 0],
                   Svalues := (Svalues s)[WireID t := 0],
                   solved := (solved s)[WireID t := True],
                   nbSolved := nbSolved s + 1\<rparr>, None)"
proof -
  let ?s1 = "storeABC s (unat cID) a 0 0"
  note sw = sweeps_unknown_on_L [OF assms(4,5,6,8)]
  have "divByCoeff ?s1 0 (CID t) = Inr 0"
    using divByCoeff_value [OF assms(9,10), of 0] by (simp add: divByCoeff_storeABC)
  then have "instantiate ?s1 0 t
      = Inr (?s1\<lparr>Svalues := (Svalues ?s1)[WireID t := 0], solved := (solved ?s1)[WireID t := True],
                   nbSolved := nbSolved ?s1 + 1\<rparr>, None)"
    using assms(6,7,8) by (intro instantiate_unsolved) (simp_all add: storeABC_simps)
  then have "solveR1C cID r s
      = Inr (?s1\<lparr>Svalues := (Svalues ?s1)[WireID t := 0], solved := (solved ?s1)[WireID t := True],
                   nbSolved := nbSolved ?s1 + 1\<rparr>, None)"
    using assms(1,2,3,12,13) sw
    by (simp add: solveR1C_def Let_def assms(11) [symmetric])
  then show ?thesis
    by (simp add: storeABC_def)
qed

theorem solveR1C_unknown_on_L_b_zero_witness:
  "solveR1C 0 \<lparr>R1C_L = [\<lparr>CID = 1, VID = 2\<rparr>], R1C_R = [\<lparr>CID = 1, VID = 1\<rparr>], R1C_O = []\<rparr>
     \<lparr>Ssystem = \<lparr>Type = 1, Instructions = [], Blueprints = [], CallData = [], CallDataSpare = [],
                    NbConstraints = 1, NbInternalVariables = 1, Public = [''1''], Secret = [''X''],
                    MHintsDependencies = [], Levels = [], Coefficients = [0, 1, 2, - 1, - 2],
                    Sys_q = 21888242871839275222246405745257275088548364400416034343698204186575808495617\<rparr>,
         Svalues = [1, 0, 0::'a::field], solved = [True, True, False], nbSolved = 2, mHintsFunctions = Map.empty,
         Sa = [0], Sb = [0], Sc = [0],
         Sq = 21888242871839275222246405745257275088548364400416034343698204186575808495617\<rparr>
   = Inr (\<lparr>Ssystem = \<lparr>Type = 1, Instructions = [], Blueprints = [], CallData = [], CallDataSpare = [],
                    NbConstraints = 1, NbInternalVariables = 1, Public = [''1''], Secret = [''X''],
                    MHintsDependencies = [], Levels = [], Coefficients = [0, 1, 2, - 1, - 2],
                    Sys_q = 21888242871839275222246405745257275088548364400416034343698204186575808495617\<rparr>,
         Svalues = [1, 0, 0], solved = [True, True, True], nbSolved = 3, mHintsFunctions = Map.empty,
         Sa = [0], Sb = [0], Sc = [0],
         Sq = 21888242871839275222246405745257275088548364400416034343698204186575808495617\<rparr>, None)"
  using solveR1C_unknown_on_L_b_zero
    [of 0 "\<lparr>Ssystem = \<lparr>Type = 1, Instructions = [], Blueprints = [], CallData = [], CallDataSpare = [],
                    NbConstraints = 1, NbInternalVariables = 1, Public = [''1''], Secret = [''X''],
                    MHintsDependencies = [], Levels = [], Coefficients = [0, 1, 2, - 1, - 2],
                    Sys_q = 21888242871839275222246405745257275088548364400416034343698204186575808495617\<rparr>,
         Svalues = [1, 0, 0::'a], solved = [True, True, False], nbSolved = 2, mHintsFunctions = Map.empty,
         Sa = [0], Sb = [0], Sc = [0],
         Sq = 21888242871839275222246405745257275088548364400416034343698204186575808495617\<rparr>"
        "\<lparr>R1C_L = [\<lparr>CID = 1, VID = 2\<rparr>], R1C_R = [\<lparr>CID = 1, VID = 1\<rparr>], R1C_O = []\<rparr>" "[]" "\<lparr>CID = 1, VID = 2\<rparr>" "[]" 0]
  by (simp add: termInRange_def lexpVal_def termVal_def WireID_def CoeffID_def CoeffId_defs)

text \<open>
  The claim as stated fails: the wire 2, unsolved before the call, is marked solved
  after it, and \<open>nbSolved\<close> has grown from 2 to 3.
\<close>

theorem solveR1C_unknown_on_L_b_zero_counterexample:
  "solved \<lparr>Ssystem = \<lparr>Type = 1, Instructions = [], Blueprints = [], CallData = [], CallDataSpare = [],
                    NbConstraints = 1, NbInternalVariables = 1, Public = [''1''], Secret = [''X''],
                    MHintsDependencies = [], Levels = [], Coefficients = [0, 1, 2, - 1, - 2],
                    Sys_q = 21888242871839275222246405745257275088548364400416034343698204186575808495617\<rparr>,
         Svalues = [1, 0, 0::'a::field], solved = [True, True, False], nbSolved = 2, mHintsFunctions = Map.empty,
         Sa = [0], Sb = [0], Sc = [0],
         Sq = 21888242871839275222246405745257275088548364400416034343698204186575808495617\<rparr> ! 2 = False \<and>
   solveR1C 0 \<lparr>R1C_L = [\<lparr>CID = 1, VID = 2\<rparr>], R1C_R = [\<lparr>CID = 1, VID = 1\<rparr>], R1C_O = []\<rparr>
     \<lparr>Ssystem = \<lparr>Type = 1, Instructions = [], Blueprints = [], CallData = [], CallDataSpare = [],
                    NbConstraints = 1, NbInternalVariables = 1, Public = [''1''], Secret = [''X''],
                    MHintsDependencies = [], Levels = [], Coefficients = [0, 1, 2, - 1, - 2],
                    Sys_q = 21888242871839275222246405745257275088548364400416034343698204186575808495617\<rparr>,
         Svalues = [1, 0, 0::'a], solved = [True, True, False], nbSolved = 2, mHintsFunctions = Map.empty,
         Sa = [0], Sb = [0], Sc = [0],
         Sq = 21888242871839275222246405745257275088548364400416034343698204186575808495617\<rparr>
   = Inr (\<lparr>Ssystem = \<lparr>Type = 1, Instructions = [], Blueprints = [], CallData = [], CallDataSpare = [],
                    NbConstraints = 1, NbInternalVariables = 1, Public = [''1''], Secret = [''X''],
                    MHintsDependencies = [], Levels = [], Coefficients = [0, 1, 2, - 1, - 2],
                    Sys_q = 21888242871839275222246405745257275088548364400416034343698204186575808495617\<rparr>,
         Svalues = [1, 0, 0], solved = [True, True, True], nbSolved = 3, mHintsFunctions = Map.empty,
         Sa = [0], Sb = [0], Sc = [0],
         Sq = 21888242871839275222246405745257275088548364400416034343698204186575808495617\<rparr>, None)"
  by (simp add: solveR1C_def instantiate_def divByCoeff_def set_wire_def storeABC_def
      accumulateInto_def WireID_def CoeffID_def CoeffId_defs)


section \<open>The errors of the solver\<close>

subsection \<open>Decompression does not depend on the destination\<close>

lemma copyTerms_indep:
  "length sl = k + n \<Longrightarrow> length sl' = k + n \<Longrightarrow> take k sl = take k sl' \<Longrightarrow>
   copyTerms calldata n k idx sl = copyTerms calldata n k idx sl'"
proof (induction n arbitrary: k idx sl sl')
  case 0
  then show ?case by simp
next
  case (Suc n)
  let ?x = "\<lparr>CID = calldata ! idx, VID = calldata ! (idx + 1)\<rparr>"
  have "take (Suc k) (sl[k := ?x]) = take (Suc k) (sl'[k := ?x])"
    using Suc.prems by (simp add: take_Suc_conv_app_nth)
  then have "copyTerms calldata n (Suc k) (idx + 2) (sl[k := ?x])
      = copyTerms calldata n (Suc k) (idx + 2) (sl'[k := ?x])"
    using Suc.prems by (intro Suc.IH) simp_all
  then show ?case
    by simp
qed

lemma copySlice_indep: "copySlice calldata sl n idx = copySlice calldata sl' n idx"
  unfolding copySlice_def by (rule copyTerms_indep) simp_all

lemma DecompressR1C_indep: "DecompressR1C c calldata = DecompressR1C c' calldata"
  unfolding DecompressR1C_def Let_def
  by (simp only: copySlice_indep [of calldata "R1C_L c" _ _ "R1C_L c'"]
      copySlice_indep [of calldata "R1C_R c" _ _ "R1C_R c'"]
      copySlice_indep [of calldata "R1C_O c" _ _ "R1C_O c'"])


lemma readInputs_indep:
  "length ins = i + m \<Longrightarrow> length ins' = i + m \<Longrightarrow> take i ins = take i ins' \<Longrightarrow>
   readInputs calldata m i j ins = readInputs calldata m i j ins'"
proof (induction m arbitrary: i j ins ins')
  case 0
  then show ?case by simp
next
  case (Suc m)
  have step: "readInputs calldata m (Suc i) j' (ins[i := l])
      = readInputs calldata m (Suc i) j' (ins'[i := l])" for l j'
  proof -
    have "take (Suc i) (ins[i := l]) = take (Suc i) (ins'[i := l])"
      using Suc.prems by (simp add: take_Suc_conv_app_nth)
    then show ?thesis
      using Suc.prems by (intro Suc.IH) simp_all
  qed
  show ?case
    by (simp add: step split: sum.splits prod.splits)
qed

lemma DecompressHint_indep: "DecompressHint h calldata = DecompressHint h' calldata"
proof -
  let ?n = "unat (calldata ! 2)"
  let ?ins = "\<lambda>h. if ?n \<le> length (Inputs h) then take ?n (Inputs h) else replicate ?n []"
  have "readInputs calldata ?n 0 3 (?ins h) = readInputs calldata ?n 0 3 (?ins h')"
    by (rule readInputs_indep) simp_all
  then show ?thesis
    by (simp add: DecompressHint_def Let_def)
qed

text \<open>
  What \<open>processInstruction\<close> does to the solver, and the error it returns, do not
  depend on what the scratch space held.
\<close>

lemma processInstruction_scratch:
  "map_sum id snd (processInstruction inst scr s) = map_sum id snd (processInstruction inst scr0 s)"
  by (simp add: processInstruction_def Let_def
      DecompressR1C_indep [of "tR1C scr" _ "tR1C scr0"]
      DecompressHint_indep [of "tHint scr" _ "tHint scr0"]
      split: sum.splits Blueprint.splits prod.splits)

subsection \<open>The system of the solver stays the same\<close>
















subsection \<open>No error is an \<open>UnsatisfiedConstraintError\<close>\<close>
















lemma copyTerms_one:
  "copyTerms calldata (Suc 0) k idx sl =
     (if idx + 1 < length calldata
      then Inr (sl[k := \<lparr>CID = calldata ! idx, VID = calldata ! (idx + 1)\<rparr>])
      else Inl ''index out of range'')"
  by simp

text \<open>
  The multiplication circuit of the spec: one constraint \<open>X * Y = Z\<close> over the wires
  \<open>1\<close>, \<open>Z\<close>, \<open>X\<close>, \<open>Y\<close>, with the call data that \<open>CompressR1C\<close> gives.
\<close>

lemma CompressR1C_mul:
  "CompressR1C \<lparr>R1C_L = [\<lparr>CID = 1, VID = 2\<rparr>], R1C_R = [\<lparr>CID = 1, VID = 3\<rparr>],
                R1C_O = [\<lparr>CID = 1, VID = 1\<rparr>]\<rparr>
   = [10, 1, 1, 1, 1, 2, 1, 3, 1, 1]"
  by (simp add: CompressR1C_def appendTerm_def CoeffID_def WireID_def)

subsection \<open>The error of a failed test reaches the caller\<close>



















section \<open>Constraints of a solved system\<close>

subsection \<open>Frames\<close>









subsection \<open>What a sweep returns\<close>








subsection \<open>The wire that a constraint determines\<close>










subsection \<open>The invariant of the run\<close>













subsection \<open>The tasks of a level\<close>












subsection \<open>From the start to the solution\<close>










end
